theory Spec2Isabelle
  imports Complex_Main
begin

section \<open>JavaScript values\<close>

text \<open>
  The classifier's reply is parsed by \<^verbatim>\<open>JSON.parse\<close>, so every field of the raw verdict is an
  arbitrary JSON value, or \<^verbatim>\<open>undefined\<close> when the property is absent. A number is the
  value a double denotes: a rational, a NaN or an infinity (\<^verbatim>\<open>JSON.parse("1e999")\<close> is
  \<^verbatim>\<open>Infinity\<close>). The only numeric operations modelled are comparisons and the
  increment of small counters, which are exact on doubles. The literal \<^verbatim>\<open>0.7\<close> denotes the
  double just below 7/10 and no double lies between the two, so for every double \<open>x\<close>
  the test \<^verbatim>\<open>x > 0.7\<close> holds exactly when \<open>x\<close> exceeds the rational 7/10.
\<close>

datatype jsnum = Finite rat | NaN | PosInf | NegInf

datatype jsval =
    JUndefined
  | JNull
  | JBool bool
  | JNum jsnum
  | JStr string
  | JArr "jsval list"
  | JObj "(string \<times> jsval) list"

text \<open>ToBoolean: what \<^verbatim>\<open>||\<close>, \<^verbatim>\<open>&&\<close>, \<^verbatim>\<open>if\<close> and \<^verbatim>\<open>?:\<close> test.\<close>

fun truthy :: "jsval \<Rightarrow> bool" where
  "truthy JUndefined = False"
| "truthy JNull = False"
| "truthy (JBool b) = b"
| "truthy (JNum (Finite q)) = (q \<noteq> 0)"
| "truthy (JNum NaN) = False"
| "truthy (JNum PosInf) = True"
| "truthy (JNum NegInf) = True"
| "truthy (JStr s) = (s \<noteq> [])"
| "truthy (JArr xs) = True"
| "truthy (JObj kvs) = True"

text \<open>\<^verbatim>\<open>a || b\<close> yields the left operand itself when it is truthy.\<close>

definition js_or :: "jsval \<Rightarrow> jsval \<Rightarrow> jsval" where
  "js_or a b = (if truthy a then a else b)"

text \<open>The comparison \<^verbatim>\<open>x > y\<close> of two numbers; any comparison with NaN is false.\<close>

fun num_gt :: "jsnum \<Rightarrow> jsnum \<Rightarrow> bool" where
  "num_gt (Finite a) (Finite b) = (b < a)"
| "num_gt (Finite a) NegInf = True"
| "num_gt PosInf (Finite b) = True"
| "num_gt PosInf NegInf = True"
| "num_gt x y = False"

text \<open>
  The operations of the language runtime that the repository's code relies on but does
  not contain: \<open>StringToNumber\<close> for a string operand of a numeric operator;
  ToPrimitive followed by ToNumber, respectively ToString, for an array or object, which
  throws a TypeError (\<open>Inl\<close> its message) when the object has no callable \<^verbatim>\<open>valueOf\<close> or
  \<^verbatim>\<open>toString\<close> that yields a primitive (a parsed object with an own property \<^verbatim>\<open>toString\<close>
  is such a one); and \<^verbatim>\<open>String.prototype.toLowerCase\<close>.
\<close>

record engine =
  StringToNumber :: "string \<Rightarrow> jsnum"
  ObjectToNumber :: "jsval \<Rightarrow> string + jsnum"
  ObjectToString :: "jsval \<Rightarrow> string + string"
  ToLowerCase :: "string \<Rightarrow> string"

fun to_number :: "engine \<Rightarrow> jsval \<Rightarrow> string + jsnum" where
  "to_number eng JUndefined = Inr NaN"
| "to_number eng JNull = Inr (Finite 0)"
| "to_number eng (JBool b) = Inr (Finite (if b then 1 else 0))"
| "to_number eng (JNum n) = Inr n"
| "to_number eng (JStr s) = Inr (StringToNumber eng s)"
| "to_number eng (JArr xs) = ObjectToNumber eng (JArr xs)"
| "to_number eng (JObj kvs) = ObjectToNumber eng (JObj kvs)"

text \<open>\<^verbatim>\<open>x > y\<close> with a number on the right: the left operand is converted to a number.\<close>

definition js_gt :: "engine \<Rightarrow> jsval \<Rightarrow> jsnum \<Rightarrow> string + bool" where
  "js_gt eng x y = (case to_number eng x of Inl e \<Rightarrow> Inl e | Inr n \<Rightarrow> Inr (num_gt n y))"

text \<open>
  A value interpolated in a template literal is converted to a string: the error thrown
  by that conversion, if any. Only an array or an object can make it throw.
\<close>

fun template_error :: "engine \<Rightarrow> jsval \<Rightarrow> string option" where
  "template_error eng (JArr xs) =
     (case ObjectToString eng (JArr xs) of Inl e \<Rightarrow> Some e | Inr t \<Rightarrow> None)"
| "template_error eng (JObj kvs) =
     (case ObjectToString eng (JObj kvs) of Inl e \<Rightarrow> Some e | Inr t \<Rightarrow> None)"
| "template_error eng v = None"

text \<open>Reading a property of a parsed object: \<^verbatim>\<open>undefined\<close> when it is absent.\<close>

definition getprop :: "(string \<times> jsval) list \<Rightarrow> string \<Rightarrow> jsval" where
  "getprop obj k = (case map_of obj k of None \<Rightarrow> JUndefined | Some v \<Rightarrow> v)"

section \<open>Data model\<close>

record rule =
  rule_id :: string
  action :: string
  timeoutDuration :: "nat option"
  severity :: "string option"
  enabled :: bool

record verdict =
  flagged :: bool
  violations :: "jsval list"
  confidence :: jsnum
  reasoning :: jsval
  suggestedAction :: jsval
  suggestedDuration :: jsval
  replyMessage :: jsval

text \<open>The entries of the audit sink (\<^verbatim>\<open>logger.modAction\<close>, \<^verbatim>\<open>aiAnalysis\<close>, \<^verbatim>\<open>botEvent\<close>, \<^verbatim>\<open>error\<close>).\<close>

datatype log_entry =
    ModAction (la_action: string) (la_userId: string) (la_ruleId: jsval)
              (la_severity: string) (la_duration: jsval)
  | AiAnalysis bool "jsval list" jsnum jsval
  | BotEvent string
  | ErrorLog (le_error: string) (le_context: string)

section \<open>Classifier client: \<^verbatim>\<open>AIEngine.analyzeMessage\<close>\<close>

text \<open>
  What the request and the parsing of its body come to: the call is rejected (timeout,
  network or HTTP error, with the error's message), the body holds no \<^verbatim>\<open>{...}\<close>, the
  matched text is not JSON (\<^verbatim>\<open>JSON.parse\<close> throws), or it parses to an object, given by its
  properties.
\<close>

datatype classifier_outcome =
    CallFailed string
  | NoJsonFound
  | ParseFailed string
  | Parsed "(string \<times> jsval) list"

text \<open>The block "Validate and normalize"; \<open>Inl\<close> is an exception thrown inside it.\<close>

definition normalize :: "engine \<Rightarrow> (string \<times> jsval) list \<Rightarrow> string + verdict" where
  "normalize eng result =
     (case (if getprop result ''flagged'' = JBool True
            then js_gt eng (js_or (getprop result ''confidence'') (JNum (Finite 0))) (Finite (7 / 10))
            else Inr False) of
        Inl e \<Rightarrow> Inl e
      | Inr f \<Rightarrow> Inr \<lparr>
          flagged = f,
          violations = (case getprop result ''violations'' of JArr xs \<Rightarrow> xs | _ \<Rightarrow> []),
          confidence = (case getprop result ''confidence'' of JNum n \<Rightarrow> n | _ \<Rightarrow> Finite 0),
          reasoning = js_or (getprop result ''reasoning'') (JStr ''No reasoning provided''),
          suggestedAction = js_or (getprop result ''suggestedAction'') (JStr ''none''),
          suggestedDuration = js_or (getprop result ''suggestedDuration'') (JNum (Finite 0)),
          replyMessage = getprop result ''replyMessage'' \<rparr>)"

text \<open>The body of the \<^verbatim>\<open>try\<close> block, from the request to the normalized result.\<close>

definition classify :: "engine \<Rightarrow> classifier_outcome \<Rightarrow> string + verdict" where
  "classify eng outcome =
     (case outcome of
        CallFailed m \<Rightarrow> Inl m
      | NoJsonFound \<Rightarrow> Inl ''No JSON found in AI response''
      | ParseFailed m \<Rightarrow> Inl m
      | Parsed result \<Rightarrow> normalize eng result)"

definition analyzeMessage ::
  "engine \<Rightarrow> rule list \<Rightarrow> classifier_outcome \<Rightarrow> log_entry list \<Rightarrow> verdict \<times> log_entry list" where
  "analyzeMessage eng rules outcome lg =
     (if filter enabled rules = []
      then (\<lparr> flagged = False, violations = [], confidence = Finite 0,
               reasoning = JStr ''No rules enabled'', suggestedAction = JUndefined,
               suggestedDuration = JUndefined, replyMessage = JUndefined \<rparr>, lg)
      else case classify eng outcome of
          Inr v \<Rightarrow>
            (v, lg @ [AiAnalysis (flagged v) (violations v) (confidence v) (reasoning v)])
        | Inl m \<Rightarrow>
            (\<lparr> flagged = False, violations = [], confidence = Finite 0,
               reasoning = JStr (''AI analysis failed: '' @ m), suggestedAction = JStr ''none'',
               suggestedDuration = JNum (Finite 0), replyMessage = JNull \<rparr>,
             lg @ [ErrorLog m ''AI analysis failed'']))"


section \<open>Messages, settings and the state of the bot\<close>

record member =
  kickable :: bool
  bannable :: bool
  roles :: "string list"

record channel =
  ch_name :: string
  text_based :: bool
  voice_based :: bool
  can_send :: bool

record guild =
  guild_id :: string
  guild_name :: string
  channels :: "channel list"

text \<open>
  An inbound message: \<open>guild\<close> is \<^verbatim>\<open>message.guild\<close> (absent for a direct message) and
  \<open>msg_member\<close> is \<^verbatim>\<open>message.member\<close> (absent when the member is not cached).
\<close>

record message =
  author_id :: string
  author_tag :: string
  author_bot :: bool
  system :: bool
  guild :: "guild option"
  channel_id :: string
  channel_name :: string
  content :: string
  msg_member :: "member option"

record settings =
  warningsBeforeAction :: "int option"
  banRequestUser :: "string option"
  dmOnAction :: bool
  ignoredChannels :: "string list option"
  ignoredRoles :: "string list option"
  trustedRoles :: "string list option"

record pending_ban =
  pb_userId :: string
  pb_username :: string
  pb_guildId :: string
  pb_guildName :: string
  pb_reason :: jsval
  pb_violations :: "jsval list"
  pb_confidence :: jsnum
  kicked :: bool
  delivered :: bool

text \<open>
  The calls made on the platform, in the order they are attempted, whether or not they
  succeed. The argument of \<^verbatim>\<open>member.timeout\<close> is \<^verbatim>\<open>duration * 1000\<close> for a moderation
  timeout, the constant \<^verbatim>\<open>7 * 24 * 60 * 60 * 1000\<close> for the restraint before a ban
  request, and \<^verbatim>\<open>null\<close> when a denied request lifts it.
\<close>

datatype timeout_arg = DurationTimes1000 jsval | Millis nat | Lift

datatype update_kind =
  BanApproved | BanApprovedById | CouldNotBan | BanFailed | BanDenied | DenyFailed

datatype call =
    Reply
  | DeleteMessage
  | FetchMember
  | MemberTimeout timeout_arg
  | MemberKick
  | ChannelSend
  | CreateDM
  | DmSend
  | ReviewerDM string
  | ModChannelSend string
  | ViolationChannelSend
  | AnyChannelSend string
  | FetchGuild
  | FetchMemberById
  | MemberBan
  | BansCreate
  | InteractionUpdate update_kind

text \<open>
  The mutable state: the counters and the pending-ban map of \<^verbatim>\<open>ModBot\<close>, the warning
  ledger of \<^verbatim>\<open>AIEngine\<close>, the entries of the audit sink, and the trace of platform calls.
\<close>

record bot =
  messageCount :: nat
  actionCount :: nat
  pendingBans :: "string \<rightharpoonup> pending_ban"
  userWarnings :: "string \<rightharpoonup> nat"
  logs :: "log_entry list"
  calls :: "call list"

definition logit :: "log_entry \<Rightarrow> bot \<Rightarrow> bot" where
  "logit e s = s\<lparr>logs := logs s @ [e]\<rparr>"

definition docall :: "call \<Rightarrow> bot \<Rightarrow> bot" where
  "docall c s = s\<lparr>calls := calls s @ [c]\<rparr>"

text \<open>
  How the platform answers the calls made while one message is handled. A result
  \<open>Some m\<close> or \<open>Inl m\<close> is a rejection with message \<open>m\<close>; where the code ignores the
  error a boolean says whether the call succeeded. \<open>guild_members\<close>, \<open>other_guilds\<close>
  (the guilds of the cache other than the message's, in cache order) and \<open>users_cache\<close>
  are what the search for the reviewer reads.

  The embeds are built by the platform's library, which validates every field and throws
  on a value that is not a string of 1 to 1024 characters; \<^verbatim>\<open>analysis.reasoning\<close>, any truthy
  JSON value, is such a field in both embeds. \<open>embed_result\<close> is the outcome of building
  the embed and the buttons of a ban request (\<open>Some m\<close> when that throws), and
  \<open>notice_built\<close> says whether the notice to the offender is built without a throw.
\<close>

record user =
  user_id :: string
  username :: string
  displayName :: string
  globalName :: "string option"

record platform =
  delete_result :: "string option"
  fetch_member :: "string + member"
  timeout_result :: "string option"
  kick_result :: "string option"
  createDM_ok :: bool
  notice_built :: bool
  guild_members :: "string + user list"
  other_guilds :: "(string + user list) list"
  users_cache :: "user list"
  embed_result :: "string option"
  reviewer_dm :: "string option"
  mod_send_ok :: bool
  viol_send :: "string option"
  any_send_ok :: bool

section \<open>Warning ledger: \<^verbatim>\<open>getWarningCount\<close>, \<^verbatim>\<open>addWarning\<close>\<close>

definition getWarningCount :: "bot \<Rightarrow> string \<Rightarrow> nat" where
  "getWarningCount s uid = (case userWarnings s uid of None \<Rightarrow> 0 | Some n \<Rightarrow> n)"

definition addWarning :: "string \<Rightarrow> bot \<Rightarrow> bot" where
  "addWarning uid s = s\<lparr>userWarnings := (userWarnings s)(uid \<mapsto> getWarningCount s uid + 1)\<rparr>"

section \<open>Enforcement: \<^verbatim>\<open>_timeoutUser\<close>, \<^verbatim>\<open>_kickUser\<close>\<close>

definition primaryViolation :: "verdict \<Rightarrow> jsval" where
  "primaryViolation a = (case violations a of [] \<Rightarrow> JUndefined | v # vs \<Rightarrow> v)"

text \<open>\<^verbatim>\<open>rule?.severity || dflt\<close>\<close>

definition severity_or :: "rule option \<Rightarrow> string \<Rightarrow> string" where
  "severity_or r dflt =
     (case r of None \<Rightarrow> dflt
      | Some x \<Rightarrow> (case severity x of None \<Rightarrow> dflt | Some v \<Rightarrow> if v = [] then dflt else v))"

text \<open>\<^verbatim>\<open>message.member || await message.guild.members.fetch(message.author.id)\<close>\<close>

definition get_member :: "platform \<Rightarrow> message \<Rightarrow> bot \<Rightarrow> (string + member) \<times> bot" where
  "get_member env msg s =
     (case msg_member msg of
        Some m \<Rightarrow> (Inr m, s)
      | None \<Rightarrow> (fetch_member env, docall FetchMember s))"

text \<open>
  The arguments of \<^verbatim>\<open>member.timeout(duration * 1000, `[ColorGG] ${analysis.reasoning}`)\<close> are
  evaluated before the call: the product converts the duration to a number and the
  template converts the reasoning to a string, and either may throw.
\<close>

definition timeout_args_error :: "engine \<Rightarrow> jsval \<Rightarrow> jsval \<Rightarrow> string option" where
  "timeout_args_error eng duration reason =
     (case to_number eng duration of
        Inl e \<Rightarrow> Some e
      | Inr n \<Rightarrow> template_error eng reason)"

definition timeoutUser ::
  "engine \<Rightarrow> platform \<Rightarrow> message \<Rightarrow> verdict \<Rightarrow> jsval \<Rightarrow> rule option \<Rightarrow> bot \<Rightarrow> bot" where
  "timeoutUser eng env msg a duration rule s =
     (case get_member env msg s of
        (Inl e, s1) \<Rightarrow> logit (ErrorLog e ''Timeout failed'') s1
      | (Inr m, s1) \<Rightarrow>
          (case timeout_args_error eng duration (reasoning a) of
             Some e \<Rightarrow> logit (ErrorLog e ''Timeout failed'') s1
           | None \<Rightarrow>
               (let s2 = docall (MemberTimeout (DurationTimes1000 duration)) s1 in
                case timeout_result env of
                  Some e \<Rightarrow> logit (ErrorLog e ''Timeout failed'') s2
                | None \<Rightarrow>
                    (let s3 = (if truthy (replyMessage a)
                                  \<and> template_error eng (replyMessage a) = None
                               then docall ChannelSend s2 else s2) in
                     logit (ModAction ''timeout'' (author_id msg) (primaryViolation a)
                              (severity_or rule ''medium'') (js_or duration JNull)) s3))))"

definition kickUser ::
  "engine \<Rightarrow> platform \<Rightarrow> message \<Rightarrow> verdict \<Rightarrow> rule option \<Rightarrow> bot \<Rightarrow> bot" where
  "kickUser eng env msg a rule s =
     (case get_member env msg s of
        (Inl e, s1) \<Rightarrow> logit (ErrorLog e ''Kick failed'') s1
      | (Inr m, s1) \<Rightarrow>
          (if kickable m
           then (case template_error eng (reasoning a) of
                   Some e \<Rightarrow> logit (ErrorLog e ''Kick failed'') s1
                 | None \<Rightarrow>
                     (let s2 = docall MemberKick s1 in
                      case kick_result env of
                        Some e \<Rightarrow> logit (ErrorLog e ''Kick failed'') s2
                      | None \<Rightarrow>
                          logit (ModAction ''kick'' (author_id msg) (primaryViolation a)
                                   (severity_or rule ''high'') JNull)
                            (docall ChannelSend s2)))
           else s1))"

section \<open>Ban-request protocol: \<^verbatim>\<open>_requestBan\<close>\<close>

subsection \<open>Step 1: restrain the offender\<close>

text \<open>
  Returns the flag \<^verbatim>\<open>kicked\<close>. A failure to obtain the member, a throw while the reason of
  the kick is put together, or a rejected kick lands in the enclosing \<^verbatim>\<open>catch\<close>, which
  logs it; the fallback timeout swallows its own failure.
\<close>

definition restrain ::
  "engine \<Rightarrow> platform \<Rightarrow> message \<Rightarrow> verdict \<Rightarrow> bot \<Rightarrow> bool \<times> bot" where
  "restrain eng env msg a s =
     (case get_member env msg s of
        (Inl e, s1) \<Rightarrow> (False, logit (ErrorLog e ''Failed to kick user before ban request'') s1)
      | (Inr m, s1) \<Rightarrow>
          (if kickable m
           then (case template_error eng (reasoning a) of
                   Some e \<Rightarrow>
                     (False, logit (ErrorLog e ''Failed to kick user before ban request'') s1)
                 | None \<Rightarrow>
                     (let s2 = docall MemberKick s1 in
                      case kick_result env of
                        Some e \<Rightarrow>
                          (False,
                           logit (ErrorLog e ''Failed to kick user before ban request'') s2)
                      | None \<Rightarrow>
                          (True, docall ChannelSend
                                   (logit (ModAction ''kick'' (author_id msg)
                                             (primaryViolation a) ''critical'' JNull) s2))))
           else (case template_error eng (reasoning a) of
                   Some e \<Rightarrow> (False, s1)
                 | None \<Rightarrow>
                     (False, docall (MemberTimeout (Millis (7 * 24 * 60 * 60 * 1000))) s1))))"

subsection \<open>Step 2: locate the reviewer\<close>

definition matchesName :: "engine \<Rightarrow> string \<Rightarrow> user \<Rightarrow> bool" where
  "matchesName eng bru u =
     (ToLowerCase eng (username u) = ToLowerCase eng bru
      \<or> ToLowerCase eng (displayName u) = ToLowerCase eng bru
      \<or> (case globalName u of
            None \<Rightarrow> False
          | Some n \<Rightarrow> ToLowerCase eng n = ToLowerCase eng bru))"

text \<open>The loop over the other guilds: a failed fetch is skipped, the first match ends it.\<close>

fun search_guilds :: "engine \<Rightarrow> string \<Rightarrow> (string + user list) list \<Rightarrow> user option" where
  "search_guilds eng bru [] = None"
| "search_guilds eng bru (Inl e # gs) = search_guilds eng bru gs"
| "search_guilds eng bru (Inr members # gs) =
     (case find (matchesName eng bru) members of
        Some found \<Rightarrow> Some found
      | None \<Rightarrow> search_guilds eng bru gs)"

definition locate_reviewer ::
  "engine \<Rightarrow> platform \<Rightarrow> string \<Rightarrow> bot \<Rightarrow> user option \<times> bot" where
  "locate_reviewer eng env bru s =
     (let (admin1, s1) =
            (case guild_members env of
               Inr members \<Rightarrow> (find (matchesName eng bru) members, s)
             | Inl e \<Rightarrow>
                 (None, logit (ErrorLog e ''Failed to fetch guild members for ban request'') s));
          admin2 = (if admin1 = None then search_guilds eng bru (other_guilds env) else admin1);
          admin3 = (if admin2 = None then find (matchesName eng bru) (users_cache env)
                    else admin2)
      in (admin3, s1))"

subsection \<open>Step 4: deliver the request\<close>

definition modChannelNames :: "string list" where
  "modChannelNames =
     [''mod-log'', ''mod-logs'', ''modlog'', ''modlogs'', ''admin'', ''admin-log'',
      ''admin-logs'', ''staff'', ''staff-chat'', ''moderator'', ''mod-chat'',
      ''ban-requests'', ''log'', ''logs'', ''bot-logs'']"

definition textChannels :: "guild \<Rightarrow> channel list" where
  "textChannels g = filter (\<lambda>c. text_based c \<and> \<not> voice_based c) (channels g)"

fun find_mod_channel :: "engine \<Rightarrow> string list \<Rightarrow> channel list \<Rightarrow> channel option" where
  "find_mod_channel eng [] cs = None"
| "find_mod_channel eng (name # names) cs =
     (case find (\<lambda>c. ToLowerCase eng (ch_name c) = name) cs of
        Some c \<Rightarrow> Some c
      | None \<Rightarrow> find_mod_channel eng names cs)"

definition anyChannel :: "guild \<Rightarrow> channel option" where
  "anyChannel g = find (\<lambda>c. text_based c \<and> \<not> voice_based c \<and> can_send c) (channels g)"

text \<open>
  The four attempts, each a block of the source working on the flag \<^verbatim>\<open>delivered\<close> and the
  state. Creating the DM channel and sending into it are one attempt.
\<close>

definition attempt1 :: "platform \<Rightarrow> user option \<Rightarrow> bool \<times> bot \<Rightarrow> bool \<times> bot" where
  "attempt1 env admin ds =
     (case ds of (d, s) \<Rightarrow>
        (case admin of
           None \<Rightarrow> (d, s)
         | Some u \<Rightarrow>
             (let s1 = docall (ReviewerDM (user_id u)) s in
              case reviewer_dm env of
                None \<Rightarrow> (True, logit (BotEvent ''ban_request_dm_sent'') s1)
              | Some e \<Rightarrow> (d, logit (BotEvent ''ban_request_dm_failed'') s1))))"

definition attempt2 :: "engine \<Rightarrow> platform \<Rightarrow> guild \<Rightarrow> bool \<times> bot \<Rightarrow> bool \<times> bot" where
  "attempt2 eng env g ds =
     (case ds of (d, s) \<Rightarrow>
        (if \<not> d
         then (case find_mod_channel eng modChannelNames (textChannels g) of
                 None \<Rightarrow> (d, s)
               | Some modChannel \<Rightarrow>
                   (let s1 = docall (ModChannelSend (ch_name modChannel)) s in
                    if mod_send_ok env
                    then (True, logit (BotEvent ''ban_request_channel'') s1)
                    else (d, s1)))
         else (d, s)))"

definition attempt3 :: "platform \<Rightarrow> bool \<times> bot \<Rightarrow> bool \<times> bot" where
  "attempt3 env ds =
     (case ds of (d, s) \<Rightarrow>
        (if \<not> d
         then (let s1 = docall ViolationChannelSend s in
               case viol_send env of
                 None \<Rightarrow> (True, logit (BotEvent ''ban_request_violation_channel'') s1)
               | Some e \<Rightarrow>
                   (d, logit (ErrorLog e ''Failed to send ban request in violation channel'') s1))
         else (d, s)))"

definition attempt4 :: "platform \<Rightarrow> guild \<Rightarrow> bool \<times> bot \<Rightarrow> bool \<times> bot" where
  "attempt4 env g ds =
     (case ds of (d, s) \<Rightarrow>
        (if \<not> d
         then (case anyChannel g of
                 None \<Rightarrow> (d, s)
               | Some c \<Rightarrow>
                   (let s1 = docall (AnyChannelSend (ch_name c)) s in
                    if any_send_ok env then (True, s1) else (d, s1)))
         else (d, s)))"

definition deliver ::
  "engine \<Rightarrow> platform \<Rightarrow> guild \<Rightarrow> user option \<Rightarrow> bot \<Rightarrow> bool \<times> bot" where
  "deliver eng env g admin s =
     attempt4 env g (attempt3 env (attempt2 eng env g (attempt1 env admin (False, s))))"

subsection \<open>The whole request\<close>

definition pending_key :: "string \<Rightarrow> string \<Rightarrow> string" where
  "pending_key uid gid = uid @ ''_'' @ gid"

text \<open>\<^verbatim>\<open>settings.banRequestUser || 'devloafyt'\<close>\<close>

definition reviewer_name :: "settings \<Rightarrow> string" where
  "reviewer_name st =
     (case banRequestUser st of
        None \<Rightarrow> ''devloafyt''
      | Some n \<Rightarrow> if n = [] then ''devloafyt'' else n)"

text \<open>
  Steps 2 to 4 and the recording of the request are the body of one \<^verbatim>\<open>try\<close>. The embed
  and the two buttons are built between the search and the delivery; when that throws,
  the \<^verbatim>\<open>catch\<close> logs "Ban request failed": nothing is delivered and no entry is recorded.
\<close>

definition requestBan ::
  "engine \<Rightarrow> platform \<Rightarrow> settings \<Rightarrow> message \<Rightarrow> guild \<Rightarrow> verdict \<Rightarrow> bot \<Rightarrow> bot" where
  "requestBan eng env st msg g a s =
     (let bru = reviewer_name st;
          (was_kicked, s1) = restrain eng env msg a s;
          (admin, s2) = locate_reviewer eng env bru s1
      in case embed_result env of
           Some e \<Rightarrow> logit (ErrorLog e ''Ban request failed'') s2
         | None \<Rightarrow>
             (let (was_delivered, s3) = deliver eng env g admin s2;
                  s4 = s3\<lparr>pendingBans := (pendingBans s3)
                         (pending_key (author_id msg) (guild_id g) \<mapsto>
                            \<lparr> pb_userId = author_id msg, pb_username = author_tag msg,
                              pb_guildId = guild_id g, pb_guildName = guild_name g,
                              pb_reason = reasoning a, pb_violations = violations a,
                              pb_confidence = confidence a, kicked = was_kicked,
                              delivered = was_delivered \<rparr>)\<rparr>;
                  s5 = (if \<not> was_delivered
                        then logit (ErrorLog
                                      (''All delivery methods failed for ban request (user: ''
                                       @ author_tag msg @ '')'')
                                      ''Ban request delivery exhausted'') s4
                        else s4)
              in logit (ModAction ''request_ban'' (author_id msg) (primaryViolation a)
                          ''critical'' JNull) s5))"

section \<open>Decision and dispatch: \<^verbatim>\<open>_takeAction\<close>\<close>

text \<open>
  \<^verbatim>\<open>primaryViolation ? rules.find(r => r.id === primaryViolation) : null\<close>: a falsy
  primary violation finds no rule, and \<^verbatim>\<open>===\<close> matches only a string equal to the id.
\<close>

definition find_rule :: "rule list \<Rightarrow> jsval \<Rightarrow> rule option" where
  "find_rule rules pv = (if truthy pv then find (\<lambda>r. JStr (rule_id r) = pv) rules else None)"

text \<open>The local \<^verbatim>\<open>action\<close> after \<^verbatim>\<open>if (rule) { action = rule.action; ... }\<close>\<close>

definition resolved_action :: "rule list \<Rightarrow> verdict \<Rightarrow> jsval" where
  "resolved_action rules a =
     (case find_rule rules (primaryViolation a) of
        Some r \<Rightarrow> JStr (action r)
      | None \<Rightarrow> suggestedAction a)"

text \<open>The local \<^verbatim>\<open>duration\<close> after \<^verbatim>\<open>if (rule.timeoutDuration) duration = rule.timeoutDuration\<close>\<close>

definition resolved_duration :: "rule list \<Rightarrow> verdict \<Rightarrow> jsval" where
  "resolved_duration rules a =
     (case find_rule rules (primaryViolation a) of
        Some r \<Rightarrow>
          (case timeoutDuration r of
             Some n \<Rightarrow> if n \<noteq> 0 then JNum (Finite (of_nat n)) else suggestedDuration a
           | None \<Rightarrow> suggestedDuration a)
      | None \<Rightarrow> suggestedDuration a)"

text \<open>\<^verbatim>\<open>settings.warningsBeforeAction || 2\<close>\<close>

definition maxWarnings :: "settings \<Rightarrow> int" where
  "maxWarnings st =
     (case warningsBeforeAction st of None \<Rightarrow> 2 | Some n \<Rightarrow> if n = 0 then 2 else n)"

text \<open>
  The notice to the offender: the DM channel is created, the embed is built (which throws
  when \<^verbatim>\<open>action\<close> is not a string, since it has no \<^verbatim>\<open>replace\<close>, and when the library
  rejects a field), and the notice is sent; every failure is swallowed.
\<close>

definition dmUser :: "platform \<Rightarrow> jsval \<Rightarrow> bot \<Rightarrow> bot" where
  "dmUser env act s =
     (let s1 = docall CreateDM s in
      if createDM_ok env \<and> (case act of JStr x \<Rightarrow> True | _ \<Rightarrow> False) \<and> notice_built env
      then docall DmSend s1 else s1)"

text \<open>The attempt to delete the offending message; a failure is logged and nothing more.\<close>

definition deleteMessage :: "platform \<Rightarrow> bot \<Rightarrow> bot" where
  "deleteMessage env s =
     (let s1 = docall DeleteMessage s in
      case delete_result env of
        None \<Rightarrow> s1
      | Some e \<Rightarrow> logit (ErrorLog e ''Failed to delete message'') s1)"

text \<open>
  The part of \<^verbatim>\<open>_takeAction\<close> from "Warning tracking" on, as a function of its locals
  \<^verbatim>\<open>action\<close>, \<^verbatim>\<open>duration\<close> and \<^verbatim>\<open>rule\<close>. The reply of a warning interpolates the reply
  message in a template inside a \<^verbatim>\<open>try\<close>: a throw there means no reply.
\<close>

definition enforce ::
  "engine \<Rightarrow> platform \<Rightarrow> settings \<Rightarrow> message \<Rightarrow> guild \<Rightarrow> verdict \<Rightarrow> jsval \<Rightarrow> jsval
     \<Rightarrow> rule option \<Rightarrow> bot \<Rightarrow> bot" where
  "enforce eng env st msg g a act duration rule s =
     (let warningCount = getWarningCount s (author_id msg)
      in if act = JStr ''warn'' \<or> (act = JStr ''timeout'' \<and> int warningCount < maxWarnings st)
         then (let s1 = addWarning (author_id msg) s;
                   s2 = (if truthy (replyMessage a) \<and> template_error eng (replyMessage a) = None
                         then docall Reply s1 else s1);
                   s3 = logit (ModAction ''warn'' (author_id msg) (primaryViolation a)
                                 (severity_or rule ''low'') JNull) s2
               in s3\<lparr>actionCount := actionCount s3 + 1\<rparr>)
         else (let s2 = deleteMessage env s;
                   s3 = (if act = JStr ''timeout''
                         then timeoutUser eng env msg a duration rule s2
                         else if act = JStr ''kick'' then kickUser eng env msg a rule s2
                         else if act = JStr ''request_ban'' then requestBan eng env st msg g a s2
                         else s2);
                   s4 = (if dmOnAction st \<and> act \<noteq> JStr ''warn'' then dmUser env act s3 else s3)
               in s4\<lparr>actionCount := actionCount s4 + 1\<rparr>))"

definition takeAction ::
  "engine \<Rightarrow> platform \<Rightarrow> settings \<Rightarrow> rule list \<Rightarrow> message \<Rightarrow> guild \<Rightarrow> verdict \<Rightarrow> bot \<Rightarrow> bot"
  where
  "takeAction eng env st rules msg g a s =
     enforce eng env st msg g a (resolved_action rules a) (resolved_duration rules a)
       (find_rule rules (primaryViolation a)) s"

section \<open>Message intake: \<^verbatim>\<open>_handleMessage\<close>\<close>

text \<open>\<^verbatim>\<open>settings.xRoles && message.member\<close> and then \<^verbatim>\<open>roles.cache.some(...)\<close>\<close>

definition has_role :: "string list option \<Rightarrow> message \<Rightarrow> bool" where
  "has_role listed msg =
     (case listed of
        None \<Rightarrow> False
      | Some rs \<Rightarrow>
          (case msg_member msg of
             None \<Rightarrow> False
           | Some m \<Rightarrow> list_ex (\<lambda>r. r \<in> set rs) (roles m)))"

definition handleMessage ::
  "engine \<Rightarrow> platform \<Rightarrow> settings \<Rightarrow> rule list \<Rightarrow> classifier_outcome \<Rightarrow> message \<Rightarrow> bot \<Rightarrow> bot"
  where
  "handleMessage eng env st rules outcome msg s =
     (if author_bot msg \<or> system msg then s
      else case guild msg of
        None \<Rightarrow> s
      | Some g \<Rightarrow>
          (let s1 = s\<lparr>messageCount := messageCount s + 1\<rparr> in
           if (case ignoredChannels st of None \<Rightarrow> False
               | Some cs \<Rightarrow> channel_id msg \<in> set cs) then s1
           else if has_role (ignoredRoles st) msg then s1
           else if has_role (trustedRoles st) msg then s1
           else (let (analysis, lg) = analyzeMessage eng rules outcome (logs s1);
                     s2 = s1\<lparr>logs := lg\<rparr>
                 in if flagged analysis \<and> num_gt (confidence analysis) (Finite (7 / 10))
                    then takeAction eng env st rules msg g analysis s2
                    else s2)))"

section \<open>Resolution by the reviewer: \<^verbatim>\<open>_handleInteraction\<close>\<close>

record interaction =
  isButton :: bool
  customId :: string

text \<open>
  How the platform answers while one interaction is handled. \<open>fetch_guild\<close> is
  \<^verbatim>\<open>guilds.cache.get(guildId) || await guilds.fetch(guildId)\<close>, yielding the guild's name;
  \<open>member_by_id\<close> is \<^verbatim>\<open>guild.members.fetch(userId).catch(() => null)\<close>;
  \<open>update_result k\<close> answers the call number \<open>k\<close> (from 0) of \<^verbatim>\<open>interaction.update\<close>.
\<close>

record review_env =
  fetch_guild :: "string + string"
  member_by_id :: "member option"
  ban_result :: "string option"
  bans_create_result :: "string option"
  untimeout_result :: "string option"
  update_result :: "nat \<Rightarrow> string option"

text \<open>\<^verbatim>\<open>String.prototype.split\<close> on a one-character separator.\<close>

fun split_on :: "char \<Rightarrow> string \<Rightarrow> string list" where
  "split_on sep [] = [[]]"
| "split_on sep (x # xs) =
     (if x = sep then [] # split_on sep xs
      else (case split_on sep xs of
              [] \<Rightarrow> [[x]]
            | p # ps \<Rightarrow> (x # p) # ps))"

text \<open>An element of the destructured array, \<^verbatim>\<open>undefined\<close> (\<open>None\<close>) beyond its end.\<close>

definition part :: "string list \<Rightarrow> nat \<Rightarrow> string option" where
  "part ps i = (if i < length ps then Some (ps ! i) else None)"

text \<open>A value inside a template literal: \<^verbatim>\<open>undefined\<close> prints as such.\<close>

definition tmpl :: "string option \<Rightarrow> string" where
  "tmpl x = (case x of None \<Rightarrow> ''undefined'' | Some v \<Rightarrow> v)"

text \<open>
  The outcome of a handler is the new state and the exception that escapes it, if any.
  Each \<^verbatim>\<open>catch\<close> block answers the reviewer with \<^verbatim>\<open>interaction.update\<close>, unguarded: in the
  outer blocks a rejection of that call leaves the handler.
\<close>

definition approve_outer_catch ::
  "review_env \<Rightarrow> nat \<Rightarrow> bot \<Rightarrow> bot \<times> string option" where
  "approve_outer_catch renv k s =
     (let s1 = docall (InteractionUpdate BanFailed) s in (s1, update_result renv k))"

definition delete_pending :: "string \<Rightarrow> bot \<Rightarrow> bot" where
  "delete_pending key s = s\<lparr>pendingBans := (pendingBans s)(key := None)\<rparr>"

definition approve_inner_catch ::
  "review_env \<Rightarrow> string \<Rightarrow> nat \<Rightarrow> bot \<Rightarrow> bot \<times> string option" where
  "approve_inner_catch renv key k s =
     (let s1 = docall (InteractionUpdate CouldNotBan) s in
      case update_result renv k of
        Some e \<Rightarrow> approve_outer_catch renv (k + 1) s1
      | None \<Rightarrow> (delete_pending key s1, None))"

definition approve ::
  "review_env \<Rightarrow> string option \<Rightarrow> string option \<Rightarrow> bot \<Rightarrow> bot \<times> string option" where
  "approve renv userId guildId s =
     (let key = tmpl userId @ ''_'' @ tmpl guildId;
          s0 = docall FetchGuild s
      in case fetch_guild renv of
        Inl e \<Rightarrow> approve_outer_catch renv 0 s0
      | Inr gname \<Rightarrow>
          (let s1 = docall FetchMemberById s0 in
           if (case member_by_id renv of None \<Rightarrow> False | Some m \<Rightarrow> bannable m)
           then (let s2 = docall MemberBan s1 in
                 case ban_result renv of
                   Some e \<Rightarrow> approve_outer_catch renv 0 s2
                 | None \<Rightarrow>
                     (let s3 = docall (InteractionUpdate BanApproved) s2 in
                      case update_result renv 0 of
                        Some e \<Rightarrow> approve_outer_catch renv 1 s3
                      | None \<Rightarrow>
                          (delete_pending key
                             (logit (ModAction ''ban'' (tmpl userId) JUndefined
                                       ''critical'' JNull) s3), None)))
           else (let s2 = docall BansCreate s1 in
                 case bans_create_result renv of
                   Some e \<Rightarrow> approve_inner_catch renv key 0 s2
                 | None \<Rightarrow>
                     (let s3 = docall (InteractionUpdate BanApprovedById) s2 in
                      case update_result renv 0 of
                        Some e \<Rightarrow> approve_inner_catch renv key 1 s3
                      | None \<Rightarrow>
                          (delete_pending key
                             (logit (ModAction ''ban'' (tmpl userId) JUndefined
                                       ''critical'' JNull) s3), None)))))"

definition deny_catch :: "review_env \<Rightarrow> nat \<Rightarrow> bot \<Rightarrow> bot \<times> string option" where
  "deny_catch renv k s =
     (let s1 = docall (InteractionUpdate DenyFailed) s in (s1, update_result renv k))"

definition deny ::
  "review_env \<Rightarrow> string option \<Rightarrow> string option \<Rightarrow> bot \<Rightarrow> bot \<times> string option" where
  "deny renv userId guildId s =
     (let key = tmpl userId @ ''_'' @ tmpl guildId;
          s0 = docall FetchGuild s
      in case fetch_guild renv of
        Inl e \<Rightarrow> deny_catch renv 0 s0
      | Inr gname \<Rightarrow>
          (let s1 = docall FetchMemberById s0;
               s2 = (case member_by_id renv of
                       None \<Rightarrow> s1
                     | Some m \<Rightarrow> docall (MemberTimeout Lift) s1)
           in if member_by_id renv \<noteq> None \<and> untimeout_result renv \<noteq> None
              then deny_catch renv 0 s2
              else (let s3 = docall (InteractionUpdate BanDenied) s2 in
                    case update_result renv 0 of
                      Some e \<Rightarrow> deny_catch renv 1 s3
                    | None \<Rightarrow> (delete_pending key s3, None))))"

definition handleInteraction ::
  "review_env \<Rightarrow> interaction \<Rightarrow> bot \<Rightarrow> bot \<times> string option" where
  "handleInteraction renv ia s =
     (if \<not> isButton ia then (s, None)
      else (let ps = split_on CHR ''_'' (customId ia) in
            if part ps 0 \<noteq> Some ''ban'' then (s, None)
            else if part ps 1 = Some ''approve'' then approve renv (part ps 2) (part ps 3) s
            else if part ps 1 = Some ''deny'' then deny renv (part ps 2) (part ps 3) s
            else (s, None)))"

section \<open>The calls of a ban request as the specification describes them\<close>

text \<open>The member record the enforcement works on: the message's, or else the fetched one.\<close>

definition member_of :: "platform \<Rightarrow> message \<Rightarrow> string + member" where
  "member_of env msg = (case msg_member msg of Some m \<Rightarrow> Inr m | None \<Rightarrow> fetch_member env)"

text \<open>
  Phase 1: the member is fetched when the message does not carry it; a kickable member is
  kicked, and the kick is announced when it went through; a member that is not kickable is
  muted for seven days. Nothing is called when the member cannot be obtained or the
  reasoning does not convert to a string.
\<close>

definition restraint_calls :: "engine \<Rightarrow> platform \<Rightarrow> message \<Rightarrow> verdict \<Rightarrow> call list" where
  "restraint_calls eng env msg a =
     (case msg_member msg of None \<Rightarrow> [FetchMember] | Some m \<Rightarrow> [])
     @ (case member_of env msg of
          Inl e \<Rightarrow> []
        | Inr m \<Rightarrow>
            if template_error eng (reasoning a) = None
            then (if kickable m
                  then MemberKick # (if kick_result env = None then [ChannelSend] else [])
                  else [MemberTimeout (Millis (7 * 24 * 60 * 60 * 1000))])
            else [])"

text \<open>Whether the kick of phase 1 was made and went through: the flag \<^verbatim>\<open>kicked\<close>.\<close>

definition kick_succeeded :: "engine \<Rightarrow> platform \<Rightarrow> message \<Rightarrow> verdict \<Rightarrow> bool" where
  "kick_succeeded eng env msg a =
     (case member_of env msg of
        Inl e \<Rightarrow> False
      | Inr m \<Rightarrow> kickable m \<and> template_error eng (reasoning a) = None
                  \<and> kick_result env = None)"

text \<open>
  Phase 3: the stages of the fallback chain that exist for a request, in the order of the
  specification, each with the platform's answer to the send: the direct message when a
  reviewer was located, the moderation channel when a text channel bears one of the listed
  names, the channel of the violation, and the first text channel the bot may send in when
  there is one.
\<close>

definition stages ::
  "engine \<Rightarrow> platform \<Rightarrow> guild \<Rightarrow> user option \<Rightarrow> (call \<times> bool) list" where
  "stages eng env g admin =
     (case admin of
        None \<Rightarrow> []
      | Some u \<Rightarrow> [(ReviewerDM (user_id u), reviewer_dm env = None)])
     @ (case find_mod_channel eng modChannelNames (textChannels g) of
          None \<Rightarrow> []
        | Some c \<Rightarrow> [(ModChannelSend (ch_name c), mod_send_ok env)])
     @ [(ViolationChannelSend, viol_send env = None)]
     @ (case anyChannel g of
          None \<Rightarrow> []
        | Some c \<Rightarrow> [(AnyChannelSend (ch_name c), any_send_ok env)])"

text \<open>Trying the stages in turn and stopping at the first success.\<close>

fun until_success :: "(call \<times> bool) list \<Rightarrow> call list" where
  "until_success [] = []"
| "until_success ((c, ok) # rest) = c # (if ok then [] else until_success rest)"

text \<open>
  Phase 2: the reviewer is searched among the members of the violating guild, then of the
  other guilds, then in the user cache; the first match wins.
\<close>

definition located :: "engine \<Rightarrow> platform \<Rightarrow> settings \<Rightarrow> user option" where
  "located eng env st =
     (case (case guild_members env of
              Inr members \<Rightarrow> find (matchesName eng (reviewer_name st)) members
            | Inl e \<Rightarrow> None) of
        Some u \<Rightarrow> Some u
      | None \<Rightarrow>
          (case search_guilds eng (reviewer_name st) (other_guilds env) of
             Some u \<Rightarrow> Some u
           | None \<Rightarrow> find (matchesName eng (reviewer_name st)) (users_cache env)))"

text \<open>
  The calls of a whole request: the restraint, then, when the request can be built, the
  deliveries.
\<close>

definition request_calls ::
  "engine \<Rightarrow> platform \<Rightarrow> settings \<Rightarrow> message \<Rightarrow> guild \<Rightarrow> verdict \<Rightarrow> call list" where
  "request_calls eng env st msg g a =
     restraint_calls eng env msg a
     @ (case embed_result env of
          None \<Rightarrow> until_success (stages eng env g (located eng env st))
        | Some e \<Rightarrow> [])"

section \<open>The calls of the other actions\<close>

text \<open>
  A timeout: the member is fetched when the message does not carry it, muted for the
  duration when the arguments of the call can be computed, and the mute is announced when
  it went through and the verdict has a reply message that converts to a string.
\<close>

definition timeout_calls ::
  "engine \<Rightarrow> platform \<Rightarrow> message \<Rightarrow> verdict \<Rightarrow> jsval \<Rightarrow> call list" where
  "timeout_calls eng env msg a duration =
     (case msg_member msg of None \<Rightarrow> [FetchMember] | Some m \<Rightarrow> [])
     @ (case member_of env msg of
          Inl e \<Rightarrow> []
        | Inr m \<Rightarrow>
            if timeout_args_error eng duration (reasoning a) = None
            then MemberTimeout (DurationTimes1000 duration)
                 # (if timeout_result env = None \<and> truthy (replyMessage a)
                       \<and> template_error eng (replyMessage a) = None
                    then [ChannelSend] else [])
            else [])"

text \<open>A kick: a kickable member is kicked, and the kick is announced when it went through.\<close>

definition kick_calls :: "engine \<Rightarrow> platform \<Rightarrow> message \<Rightarrow> verdict \<Rightarrow> call list" where
  "kick_calls eng env msg a =
     (case msg_member msg of None \<Rightarrow> [FetchMember] | Some m \<Rightarrow> [])
     @ (case member_of env msg of
          Inl e \<Rightarrow> []
        | Inr m \<Rightarrow>
            if kickable m \<and> template_error eng (reasoning a) = None
            then MemberKick # (if kick_result env = None then [ChannelSend] else [])
            else [])"

text \<open>The calls of the action dispatched on, and of the notice to the offender after it.\<close>

definition action_calls ::
  "engine \<Rightarrow> platform \<Rightarrow> settings \<Rightarrow> message \<Rightarrow> guild \<Rightarrow> verdict \<Rightarrow> jsval \<Rightarrow> jsval
     \<Rightarrow> call list" where
  "action_calls eng env st msg g a act duration =
     (if act = JStr ''timeout'' then timeout_calls eng env msg a duration
      else if act = JStr ''kick'' then kick_calls eng env msg a
      else if act = JStr ''request_ban'' then request_calls eng env st msg g a
      else [])"

definition notice_calls :: "platform \<Rightarrow> settings \<Rightarrow> jsval \<Rightarrow> call list" where
  "notice_calls env st act =
     (if dmOnAction st
      then CreateDM # (if createDM_ok env \<and> (case act of JStr x \<Rightarrow> True | _ \<Rightarrow> False)
                          \<and> notice_built env
                       then [DmSend] else [])
      else [])"

text \<open>The reply of a warning, made when the verdict has a reply message that converts.\<close>

definition reply_calls :: "engine \<Rightarrow> verdict \<Rightarrow> call list" where
  "reply_calls eng a =
     (if truthy (replyMessage a) \<and> template_error eng (replyMessage a) = None
      then [Reply] else [])"

section \<open>Concrete inputs\<close>

text \<open>
  A runtime for the evaluations below: their strings are ASCII, on which \<^verbatim>\<open>toLowerCase\<close>
  is the function \<open>ascii_lower\<close>, and none of them converts a string, an array or an
  object.
\<close>

definition lower_char :: "char \<Rightarrow> char" where
  "lower_char c =
     (let n = (of_char c :: nat) in if 65 \<le> n \<and> n \<le> 90 then char_of (n + 32) else c)"

definition ascii_lower :: "string \<Rightarrow> string" where
  "ascii_lower str = map lower_char str"

definition ex_engine :: engine where
  "ex_engine = \<lparr> StringToNumber = (\<lambda>s. NaN), ObjectToNumber = (\<lambda>v. Inr NaN),
                  ObjectToString = (\<lambda>v. Inr ''[object Object]''),
                  ToLowerCase = ascii_lower \<rparr>"

definition spam_rule :: rule where
  "spam_rule = \<lparr> rule_id = ''spam'', action = ''timeout'', timeoutDuration = Some 300,
                  severity = Some ''medium'', enabled = True \<rparr>"

definition zero_rule :: rule where
  "zero_rule = \<lparr> rule_id = ''spam'', action = ''timeout'', timeoutDuration = Some 0,
                  severity = Some ''medium'', enabled = True \<rparr>"

definition ban_rule :: rule where
  "ban_rule = \<lparr> rule_id = ''threats'', action = ''request_ban'', timeoutDuration = Some 0,
                 severity = Some ''critical'', enabled = True \<rparr>"

definition ex_member :: member where
  "ex_member = \<lparr> kickable = True, bannable = True, roles = [] \<rparr>"

definition ex_guild :: guild where
  "ex_guild = \<lparr> guild_id = ''7'', guild_name = ''lounge'',
                 channels = [\<lparr> ch_name = ''general'', text_based = True, voice_based = False,
                               can_send = True \<rparr>,
                             \<lparr> ch_name = ''mod-log'', text_based = True, voice_based = False,
                               can_send = True \<rparr>] \<rparr>"

text \<open>A guild whose only channel is one the bot may not send in.\<close>

definition bare_guild :: guild where
  "bare_guild = \<lparr> guild_id = ''7'', guild_name = ''lounge'',
                   channels = [\<lparr> ch_name = ''general'', text_based = True,
                                 voice_based = False, can_send = False \<rparr>] \<rparr>"

definition ex_msg :: message where
  "ex_msg = \<lparr> author_id = ''42'', author_tag = ''mallory'', author_bot = False,
               system = False, guild = Some ex_guild, channel_id = ''100'',
               channel_name = ''general'', content = ''buy now'',
               msg_member = Some ex_member \<rparr>"

definition ex_settings :: settings where
  "ex_settings = \<lparr> warningsBeforeAction = Some 2, banRequestUser = Some ''devloafyt'',
                    dmOnAction = False, ignoredChannels = Some [], ignoredRoles = Some [],
                    trustedRoles = Some [] \<rparr>"

definition ex_reviewer :: user where
  "ex_reviewer = \<lparr> user_id = ''1'', username = ''devloafyt'', displayName = ''Dev'',
                    globalName = None \<rparr>"

text \<open>A platform on which every call succeeds and the reviewer is a member of the guild.\<close>

definition ex_env :: platform where
  "ex_env = \<lparr> delete_result = None, fetch_member = Inr ex_member, timeout_result = None,
               kick_result = None, createDM_ok = True, notice_built = True,
               guild_members = Inr [ex_reviewer], other_guilds = [], users_cache = [],
               embed_result = None, reviewer_dm = None, mod_send_ok = True,
               viol_send = None, any_send_ok = True \<rparr>"

text \<open>A platform on which the reviewer is found and every send of the request is rejected.\<close>

definition deaf_env :: platform where
  "deaf_env = \<lparr> delete_result = None, fetch_member = Inr ex_member, timeout_result = None,
                 kick_result = None, createDM_ok = True, notice_built = True,
                 guild_members = Inr [ex_reviewer], other_guilds = [], users_cache = [],
                 embed_result = None, reviewer_dm = Some ''Cannot send'',
                 mod_send_ok = False, viol_send = Some ''Missing Access'',
                 any_send_ok = False \<rparr>"

definition ex_bot :: bot where
  "ex_bot = \<lparr> messageCount = 0, actionCount = 0, pendingBans = Map.empty,
               userWarnings = Map.empty, logs = [], calls = [] \<rparr>"

definition ex_verdict :: verdict where
  "ex_verdict = \<lparr> flagged = True, violations = [JStr ''spam''], confidence = Finite (9 / 10),
                   reasoning = JStr ''advertising'', suggestedAction = JStr ''warn'',
                   suggestedDuration = JNum (Finite 600), replyMessage = JNull \<rparr>"

definition ex_pending :: pending_ban where
  "ex_pending = \<lparr> pb_userId = ''42'', pb_username = ''mallory'', pb_guildId = ''7'',
                   pb_guildName = ''lounge'', pb_reason = JStr ''threats'',
                   pb_violations = [JStr ''threats''], pb_confidence = Finite (9 / 10),
                   kicked = True, delivered = True \<rparr>"

text \<open>The offender has left the guild and every call of the resolution succeeds.\<close>

definition left_renv :: review_env where
  "left_renv = \<lparr> fetch_guild = Inr ''lounge'', member_by_id = None, ban_result = None,
                  bans_create_result = None, untimeout_result = None,
                  update_result = (\<lambda>k. None) \<rparr>"

text \<open>The offender has left the guild and the platform rejects the ban by id.\<close>

definition noperm_renv :: review_env where
  "noperm_renv = \<lparr> fetch_guild = Inr ''lounge'', member_by_id = None, ban_result = None,
                    bans_create_result = Some ''Missing Permissions'',
                    untimeout_result = None, update_result = (\<lambda>k. None) \<rparr>"

text \<open>The guild cannot be fetched and the platform rejects every answer to the reviewer.\<close>

definition gone_renv :: review_env where
  "gone_renv = \<lparr> fetch_guild = Inl ''Unknown Guild'', member_by_id = None, ban_result = None,
                  bans_create_result = None, untimeout_result = None,
                  update_result = (\<lambda>k. Some ''Unknown interaction'') \<rparr>"

section \<open>Effects of the helpers on the state\<close>

lemma logit_fields [simp]:
  "logs (logit e s) = logs s @ [e]" "calls (logit e s) = calls s"
  "userWarnings (logit e s) = userWarnings s" "pendingBans (logit e s) = pendingBans s"
  "messageCount (logit e s) = messageCount s" "actionCount (logit e s) = actionCount s"
  by (simp_all add: logit_def)

lemma docall_fields [simp]:
  "calls (docall c s) = calls s @ [c]" "logs (docall c s) = logs s"
  "userWarnings (docall c s) = userWarnings s" "pendingBans (docall c s) = pendingBans s"
  "messageCount (docall c s) = messageCount s" "actionCount (docall c s) = actionCount s"
  by (simp_all add: docall_def)

section \<open>The classifier boundary\<close>

text \<open>
  When the raw confidence is a number, or is absent, the normalized verdict is flagged only
  with a confidence above 0.7.
\<close>

lemma normalize_numeric_confidence:
  assumes "getprop result ''confidence'' = JNum n" and "normalize eng result = Inr v"
  shows "flagged v \<longrightarrow> num_gt (confidence v) (Finite (7 / 10))"
  using assms
  by (cases n) (auto simp: normalize_def js_gt_def js_or_def split: if_splits)

lemma normalize_missing_confidence:
  assumes "getprop result ''confidence'' = JUndefined \<or> getprop result ''confidence'' = JNull"
    and "normalize eng result = Inr v"
  shows "\<not> flagged v"
  using assms
  by (auto simp: normalize_def js_gt_def js_or_def split: if_splits)

text \<open>
  C1. The claim is that every verdict leaving \<^verbatim>\<open>analyzeMessage\<close> with \<open>flagged = true\<close> has
  a confidence above 0.7. For the raw reply \<^verbatim>\<open>{"flagged": true, "confidence": true}\<close> the
  test \<^verbatim>\<open>(result.confidence || 0) > 0.7\<close> converts \<^verbatim>\<open>true\<close> to 1 and keeps the flag, and
  the next but one line replaces the non-numeric confidence by 0: the verdict returned is
  flagged with confidence 0, whatever the runtime's conversions of strings and objects.
\<close>

theorem analyzeMessage_flagged_with_zero_confidence:
  "fst (analyzeMessage eng [spam_rule]
          (Parsed [(''flagged'', JBool True), (''confidence'', JBool True)]) lg)
   = \<lparr> flagged = True, violations = [], confidence = Finite 0,
       reasoning = JStr ''No reasoning provided'', suggestedAction = JStr ''none'',
       suggestedDuration = JNum (Finite 0), replyMessage = JUndefined \<rparr>"
  by (simp add: analyzeMessage_def spam_rule_def classify_def normalize_def getprop_def
      js_gt_def js_or_def)

text \<open>
  The same happens for a confidence given as a string that the runtime reads as a number
  above 0.7, such as \<^verbatim>\<open>"0.9"\<close>.
\<close>

lemma analyzeMessage_flagged_string_confidence:
  assumes "StringToNumber eng ''0.9'' = Finite (9 / 10)"
  shows "flagged (fst (analyzeMessage eng [spam_rule]
            (Parsed [(''flagged'', JBool True), (''confidence'', JStr ''0.9'')]) lg))
         \<and> confidence (fst (analyzeMessage eng [spam_rule]
            (Parsed [(''flagged'', JBool True), (''confidence'', JStr ''0.9'')]) lg)) = Finite 0"
  using assms
  by (simp add: analyzeMessage_def spam_rule_def classify_def normalize_def getprop_def
      js_gt_def js_or_def)

text \<open>
  C5. When the classification fails, that is when the body of the \<^verbatim>\<open>try\<close> block throws
  with message \<open>m\<close> (the request is rejected or times out, the body holds no JSON, the
  JSON does not parse, or the normalization throws), \<^verbatim>\<open>analyzeMessage\<close> returns the safe
  default verdict, unflagged with confidence 0 and a reasoning that carries \<open>m\<close>, and
  records exactly one error entry. \<^verbatim>\<open>_handleMessage\<close> then takes no action: a message that
  reaches the classifier changes the state only by the message counter and that entry.
\<close>

theorem classification_failure_safe_default:
  assumes "filter enabled rules \<noteq> []" and "classify eng outcome = Inl m"
  shows "analyzeMessage eng rules outcome lg =
           (\<lparr> flagged = False, violations = [], confidence = Finite 0,
              reasoning = JStr (''AI analysis failed: '' @ m), suggestedAction = JStr ''none'',
              suggestedDuration = JNum (Finite 0), replyMessage = JNull \<rparr>,
            lg @ [ErrorLog m ''AI analysis failed''])
         \<and> handleMessage eng env st rules outcome msg s =
           (if author_bot msg \<or> system msg \<or> guild msg = None then s
            else if (case ignoredChannels st of None \<Rightarrow> False
                     | Some cs \<Rightarrow> channel_id msg \<in> set cs)
                    \<or> has_role (ignoredRoles st) msg \<or> has_role (trustedRoles st) msg
                 then s\<lparr>messageCount := messageCount s + 1\<rparr>
            else s\<lparr>messageCount := messageCount s + 1,
                    logs := logs s @ [ErrorLog m ''AI analysis failed'']\<rparr>)"
  using assms
  by (auto simp: analyzeMessage_def handleMessage_def Let_def split: option.splits)

theorem classification_failure_safe_default_witness:
  "filter enabled [spam_rule] \<noteq> []
   \<and> classify ex_engine (CallFailed ''timeout of 30000ms exceeded'')
       = Inl ''timeout of 30000ms exceeded''
   \<and> analyzeMessage ex_engine [spam_rule] (CallFailed ''timeout of 30000ms exceeded'') [] =
        (\<lparr> flagged = False, violations = [], confidence = Finite 0,
           reasoning = JStr ''AI analysis failed: timeout of 30000ms exceeded'',
           suggestedAction = JStr ''none'', suggestedDuration = JNum (Finite 0),
           replyMessage = JNull \<rparr>,
         [ErrorLog ''timeout of 30000ms exceeded'' ''AI analysis failed''])
   \<and> handleMessage ex_engine ex_env ex_settings [spam_rule]
        (CallFailed ''timeout of 30000ms exceeded'') ex_msg ex_bot =
        ex_bot\<lparr>messageCount := 1,
                logs := [ErrorLog ''timeout of 30000ms exceeded'' ''AI analysis failed'']\<rparr>"
proof -
  have h1: "filter enabled [spam_rule] \<noteq> []"
    by (simp add: spam_rule_def)
  have h2: "classify ex_engine (CallFailed ''timeout of 30000ms exceeded'')
              = Inl ''timeout of 30000ms exceeded''"
    by (simp add: classify_def)
  have skip: "\<not> has_role (Some []) ex_msg"
    by (simp add: has_role_def ex_msg_def ex_member_def)
  show ?thesis
    using h1 h2
      classification_failure_safe_default [OF h1 h2, of "[]" ex_env ex_settings ex_msg ex_bot]
      skip
    by (simp add: ex_msg_def ex_settings_def ex_bot_def)
qed

section \<open>Message intake\<close>

text \<open>
  C10. A message authored by a bot, marked as a system message, or arriving outside a
  guild is skipped entirely: whatever its content, the settings, the rules and whatever
  the classifier would answer, \<^verbatim>\<open>_handleMessage\<close> leaves the state as it was, so nothing is
  counted, nothing is logged and no call is made on the platform.
\<close>

theorem skipped_messages_untouched:
  assumes "author_bot msg \<or> system msg \<or> guild msg = None"
  shows "handleMessage eng env st rules outcome msg s = s"
  using assms by (auto simp: handleMessage_def)

theorem skipped_messages_untouched_witness:
  "(author_bot (ex_msg\<lparr>author_bot := True\<rparr>) \<or> system (ex_msg\<lparr>author_bot := True\<rparr>)
      \<or> guild (ex_msg\<lparr>author_bot := True\<rparr>) = None)
   \<and> handleMessage ex_engine ex_env ex_settings [spam_rule]
        (Parsed [(''flagged'', JBool True), (''confidence'', JNum (Finite 1))])
        (ex_msg\<lparr>author_bot := True\<rparr>) ex_bot = ex_bot"
proof -
  have h: "author_bot (ex_msg\<lparr>author_bot := True\<rparr>) \<or> system (ex_msg\<lparr>author_bot := True\<rparr>)
      \<or> guild (ex_msg\<lparr>author_bot := True\<rparr>) = None"
    by simp
  show ?thesis
    using h skipped_messages_untouched [OF h] by simp
qed

section \<open>Effects of the enforcement functions\<close>

lemma get_member_fst: "fst (get_member env msg s) = member_of env msg"
  by (simp add: get_member_def member_of_def split: option.splits)

lemma deleteMessage_fields [simp]:
  "calls (deleteMessage env s) = calls s @ [DeleteMessage]"
  "userWarnings (deleteMessage env s) = userWarnings s"
  "pendingBans (deleteMessage env s) = pendingBans s"
  "logs (deleteMessage env s) =
     logs s @ (case delete_result env of None \<Rightarrow> []
               | Some e \<Rightarrow> [ErrorLog e ''Failed to delete message''])"
  by (simp_all add: deleteMessage_def Let_def split: option.splits)

lemma timeoutUser_frame:
  "userWarnings (timeoutUser eng env msg a d r s) = userWarnings s
   \<and> pendingBans (timeoutUser eng env msg a d r s) = pendingBans s"
  by (auto simp: timeoutUser_def Let_def get_member_def split: option.splits sum.splits)

lemma timeoutUser_calls:
  "calls (timeoutUser eng env msg a d r s) = calls s @ timeout_calls eng env msg a d"
  by (auto simp: timeoutUser_def timeout_calls_def member_of_def Let_def get_member_def
      split: option.splits sum.splits)

lemma timeoutUser_logs: "\<exists>es. logs (timeoutUser eng env msg a d r s) = logs s @ es"
  by (auto simp: timeoutUser_def Let_def get_member_def split: option.splits sum.splits)

lemma kickUser_frame:
  "userWarnings (kickUser eng env msg a r s) = userWarnings s
   \<and> pendingBans (kickUser eng env msg a r s) = pendingBans s"
  by (auto simp: kickUser_def Let_def get_member_def split: option.splits sum.splits)

lemma kickUser_calls:
  "calls (kickUser eng env msg a r s) = calls s @ kick_calls eng env msg a"
  by (auto simp: kickUser_def kick_calls_def member_of_def Let_def get_member_def
      split: option.splits sum.splits)

lemma kickUser_logs: "\<exists>es. logs (kickUser eng env msg a r s) = logs s @ es"
  by (auto simp: kickUser_def Let_def get_member_def split: option.splits sum.splits)

lemma dmUser_frame:
  "userWarnings (dmUser env act s) = userWarnings s
   \<and> pendingBans (dmUser env act s) = pendingBans s
   \<and> logs (dmUser env act s) = logs s"
  by (auto simp: dmUser_def Let_def)

lemma dmUser_calls:
  "calls (dmUser env act s) =
     calls s @ CreateDM # (if createDM_ok env \<and> (case act of JStr x \<Rightarrow> True | _ \<Rightarrow> False)
                               \<and> notice_built env
                            then [DmSend] else [])"
  by (auto simp: dmUser_def Let_def)

section \<open>Effects of the ban request\<close>

lemma restrain_frame:
  "userWarnings (snd (restrain eng env msg a s)) = userWarnings s
   \<and> pendingBans (snd (restrain eng env msg a s)) = pendingBans s"
  by (auto simp: restrain_def Let_def get_member_def split: option.splits sum.splits)

lemma restrain_calls:
  "calls (snd (restrain eng env msg a s)) = calls s @ restraint_calls eng env msg a"
  by (auto simp: restrain_def restraint_calls_def member_of_def Let_def get_member_def
      split: option.splits sum.splits)

lemma restrain_logs: "\<exists>es. logs (snd (restrain eng env msg a s)) = logs s @ es"
  by (auto simp: restrain_def Let_def get_member_def split: option.splits sum.splits)

lemma restrain_kicked: "fst (restrain eng env msg a s) = kick_succeeded eng env msg a"
  by (auto simp: restrain_def kick_succeeded_def member_of_def Let_def get_member_def
      split: option.splits sum.splits)

lemma locate_reviewer_frame:
  "userWarnings (snd (locate_reviewer eng env bru s)) = userWarnings s
   \<and> pendingBans (snd (locate_reviewer eng env bru s)) = pendingBans s
   \<and> calls (snd (locate_reviewer eng env bru s)) = calls s"
  by (auto simp: locate_reviewer_def Let_def split: sum.splits)

lemma locate_reviewer_logs: "\<exists>es. logs (snd (locate_reviewer eng env bru s)) = logs s @ es"
  by (auto simp: locate_reviewer_def Let_def split: sum.splits)

lemma locate_reviewer_located:
  "fst (locate_reviewer eng env (reviewer_name st) s) = located eng env st"
  by (auto simp: locate_reviewer_def located_def Let_def split: sum.splits option.splits)

lemma deliver_frame:
  "userWarnings (snd (deliver eng env g admin s)) = userWarnings s
   \<and> pendingBans (snd (deliver eng env g admin s)) = pendingBans s"
  by (auto simp: deliver_def attempt1_def attempt2_def attempt3_def attempt4_def Let_def
      split: option.splits)

lemma deliver_calls:
  "calls (snd (deliver eng env g admin s)) = calls s @ until_success (stages eng env g admin)"
  by (auto simp: deliver_def attempt1_def attempt2_def attempt3_def attempt4_def Let_def
      stages_def split: option.splits)

lemma deliver_delivered:
  "fst (deliver eng env g admin s) = list_ex snd (stages eng env g admin)"
  by (auto simp: deliver_def attempt1_def attempt2_def attempt3_def attempt4_def Let_def
      stages_def split: option.splits)

lemma deliver_logs: "\<exists>es. logs (snd (deliver eng env g admin s)) = logs s @ es"
  by (auto simp: deliver_def attempt1_def attempt2_def attempt3_def attempt4_def Let_def
      split: option.splits)

lemma requestBan_frame:
  "userWarnings (requestBan eng env st msg g a s) = userWarnings s"
  by (simp add: requestBan_def Let_def case_prod_beta deliver_frame locate_reviewer_frame
      restrain_frame split: option.splits)

lemma requestBan_pending:
  "pendingBans (requestBan eng env st msg g a s) =
     (case embed_result env of
        Some e \<Rightarrow> pendingBans s
      | None \<Rightarrow>
          (pendingBans s)(pending_key (author_id msg) (guild_id g) \<mapsto>
             \<lparr> pb_userId = author_id msg, pb_username = author_tag msg,
               pb_guildId = guild_id g, pb_guildName = guild_name g,
               pb_reason = reasoning a, pb_violations = violations a,
               pb_confidence = confidence a, kicked = kick_succeeded eng env msg a,
               delivered = list_ex snd (stages eng env g (located eng env st)) \<rparr>))"
  by (simp add: requestBan_def Let_def case_prod_beta deliver_frame locate_reviewer_frame
      restrain_frame deliver_delivered locate_reviewer_located restrain_kicked
      split: option.splits)

lemma requestBan_calls:
  "calls (requestBan eng env st msg g a s) = calls s @ request_calls eng env st msg g a"
  by (simp add: requestBan_def request_calls_def Let_def case_prod_beta deliver_calls
      locate_reviewer_frame locate_reviewer_located restrain_calls split: option.splits)

lemma requestBan_exhausted_logged:
  "embed_result env = None \<Longrightarrow> \<not> list_ex snd (stages eng env g (located eng env st)) \<Longrightarrow>
     ErrorLog (''All delivery methods failed for ban request (user: '' @ author_tag msg @ '')'')
        ''Ban request delivery exhausted'' \<in> set (logs (requestBan eng env st msg g a s))"
  by (simp add: requestBan_def Let_def case_prod_beta deliver_delivered
      locate_reviewer_located)

lemma requestBan_failed_logged:
  "embed_result env = Some e \<Longrightarrow>
     ErrorLog e ''Ban request failed'' \<in> set (logs (requestBan eng env st msg g a s))"
  by (simp add: requestBan_def Let_def case_prod_beta)

lemma requestBan_logs: "\<exists>es. logs (requestBan eng env st msg g a s) = logs s @ es"
proof -
  let ?s1 = "snd (restrain eng env msg a s)"
  let ?s2 = "snd (locate_reviewer eng env (reviewer_name st) ?s1)"
  let ?s3 = "snd (deliver eng env g (fst (locate_reviewer eng env (reviewer_name st) ?s1)) ?s2)"
  obtain e1 where e1: "logs ?s1 = logs s @ e1"
    using restrain_logs by blast
  obtain e2 where e2: "logs ?s2 = logs ?s1 @ e2"
    using locate_reviewer_logs by blast
  obtain e3 where e3: "logs ?s3 = logs ?s2 @ e3"
    using deliver_logs by blast
  show ?thesis
    by (simp add: requestBan_def Let_def case_prod_beta e1 e2 e3 split: option.splits)
qed

lemma until_success_length:
  "length (until_success xs) =
     length (takeWhile (\<lambda>x. \<not> snd x) xs) + (if list_ex snd xs then 1 else 0)"
  by (induction xs rule: until_success.induct) auto

lemma until_success_subset: "set (until_success xs) \<subseteq> fst ` set xs"
  by (induction xs rule: until_success.induct) auto

lemma until_success_distinct: "distinct (map fst xs) \<Longrightarrow> distinct (until_success xs)"
proof (induction xs rule: until_success.induct)
  case 1
  then show ?case by simp
next
  case (2 c ok rest)
  then show ?case
    using until_success_subset [of rest] by auto
qed

lemma stages_distinct: "distinct (map fst (stages eng env g admin))"
  by (auto simp: stages_def split: option.splits)

section \<open>The two branches of \<^verbatim>\<open>_takeAction\<close>\<close>

lemma enforce_warn:
  assumes "act = JStr ''warn''
           \<or> (act = JStr ''timeout''
               \<and> int (getWarningCount s (author_id msg)) < maxWarnings st)"
  shows "userWarnings (enforce eng env st msg g a act d rule s) =
           (userWarnings s)(author_id msg \<mapsto> getWarningCount s (author_id msg) + 1)"
    and "calls (enforce eng env st msg g a act d rule s) = calls s @ reply_calls eng a"
    and "logs (enforce eng env st msg g a act d rule s) =
           logs s @ [ModAction ''warn'' (author_id msg) (primaryViolation a)
                       (severity_or rule ''low'') JNull]"
    and "pendingBans (enforce eng env st msg g a act d rule s) = pendingBans s"
  using assms by (auto simp: enforce_def Let_def addWarning_def reply_calls_def)

lemma enforce_other:
  assumes "act \<noteq> JStr ''warn''"
    and "\<not> (act = JStr ''timeout''
             \<and> int (getWarningCount s (author_id msg)) < maxWarnings st)"
  shows "enforce eng env st msg g a act d rule s =
          (let s3 = (if act = JStr ''timeout''
                     then timeoutUser eng env msg a d rule (deleteMessage env s)
                     else if act = JStr ''kick''
                     then kickUser eng env msg a rule (deleteMessage env s)
                     else if act = JStr ''request_ban''
                     then requestBan eng env st msg g a (deleteMessage env s)
                     else deleteMessage env s);
               s4 = (if dmOnAction st then dmUser env act s3 else s3)
           in s4\<lparr>actionCount := actionCount s4 + 1\<rparr>)"
proof -
  have c: "\<not> (act = JStr ''warn''
            \<or> (act = JStr ''timeout''
                \<and> int (getWarningCount s (author_id msg)) < maxWarnings st))"
    using assms by blast
  show ?thesis
    unfolding enforce_def Let_def if_not_P [OF c] by (simp add: assms(1))
qed

lemma enforce_other_ledger:
  assumes "act \<noteq> JStr ''warn''"
    and "\<not> (act = JStr ''timeout''
             \<and> int (getWarningCount s (author_id msg)) < maxWarnings st)"
  shows "userWarnings (enforce eng env st msg g a act d rule s) = userWarnings s"
  using enforce_other [OF assms]
  by (simp add: Let_def timeoutUser_frame kickUser_frame requestBan_frame dmUser_frame)

lemma enforce_other_pending:
  assumes "act \<noteq> JStr ''warn''"
    and "\<not> (act = JStr ''timeout''
             \<and> int (getWarningCount s (author_id msg)) < maxWarnings st)"
  shows "pendingBans (enforce eng env st msg g a act d rule s) =
           (if act = JStr ''request_ban''
            then pendingBans (requestBan eng env st msg g a s)
            else pendingBans s)"
  using enforce_other [OF assms]
  by (simp add: Let_def timeoutUser_frame kickUser_frame dmUser_frame requestBan_pending
      split: option.splits)

lemma enforce_other_calls:
  assumes "act \<noteq> JStr ''warn''"
    and "\<not> (act = JStr ''timeout''
             \<and> int (getWarningCount s (author_id msg)) < maxWarnings st)"
  shows "calls (enforce eng env st msg g a act d rule s) =
           calls s @ DeleteMessage # action_calls eng env st msg g a act d
             @ notice_calls env st act"
  using enforce_other [OF assms]
  by (simp add: Let_def timeoutUser_calls kickUser_calls requestBan_calls dmUser_calls
      action_calls_def notice_calls_def)

lemma enforce_other_logs:
  assumes "act \<noteq> JStr ''warn''"
    and "\<not> (act = JStr ''timeout''
             \<and> int (getWarningCount s (author_id msg)) < maxWarnings st)"
  shows "\<exists>es. logs (enforce eng env st msg g a act d rule s) =
           logs s @ (case delete_result env of None \<Rightarrow> []
                     | Some e \<Rightarrow> [ErrorLog e ''Failed to delete message'']) @ es"
proof -
  let ?s2 = "deleteMessage env s"
  let ?s3 = "(if act = JStr ''timeout''
              then timeoutUser eng env msg a d rule ?s2
              else if act = JStr ''kick''
              then kickUser eng env msg a rule ?s2
              else if act = JStr ''request_ban''
              then requestBan eng env st msg g a ?s2
              else ?s2)"
  let ?s4 = "(if dmOnAction st then dmUser env act ?s3 else ?s3)"
  have eq: "enforce eng env st msg g a act d rule s = ?s4\<lparr>actionCount := actionCount ?s4 + 1\<rparr>"
    using enforce_other [OF assms] by (simp add: Let_def)
  obtain es where "logs ?s3 = logs ?s2 @ es"
    using timeoutUser_logs [of eng env msg a d rule ?s2]
      kickUser_logs [of eng env msg a rule ?s2]
      requestBan_logs [of eng env st msg g a ?s2]
    by (cases "act = JStr ''timeout''"; cases "act = JStr ''kick''";
        cases "act = JStr ''request_ban''") auto
  then show ?thesis
    using eq by (simp add: dmUser_frame)
qed

text \<open>The calls of an action do not depend on how the deletion of the message went.\<close>

lemma member_of_delete_result [simp]:
  "member_of (env\<lparr>delete_result := r\<rparr>) msg = member_of env msg"
  by (simp add: member_of_def split: option.splits)

lemma timeout_calls_delete_result [simp]:
  "timeout_calls eng (env\<lparr>delete_result := r\<rparr>) msg a d = timeout_calls eng env msg a d"
  by (auto simp: timeout_calls_def split: option.splits sum.splits)

lemma kick_calls_delete_result [simp]:
  "kick_calls eng (env\<lparr>delete_result := r\<rparr>) msg a = kick_calls eng env msg a"
  by (auto simp: kick_calls_def split: option.splits sum.splits)

lemma request_calls_delete_result [simp]:
  "request_calls eng (env\<lparr>delete_result := r\<rparr>) st msg g a = request_calls eng env st msg g a"
  by (auto simp: request_calls_def restraint_calls_def stages_def located_def
      split: option.splits sum.splits)

lemma kick_succeeded_delete_result [simp]:
  "kick_succeeded eng (env\<lparr>delete_result := r\<rparr>) msg a = kick_succeeded eng env msg a"
  by (auto simp: kick_succeeded_def split: sum.splits)

lemma action_calls_delete_result [simp]:
  "action_calls eng (env\<lparr>delete_result := r\<rparr>) st msg g a act d
     = action_calls eng env st msg g a act d"
  by (simp add: action_calls_def)

lemma notice_calls_delete_result [simp]:
  "notice_calls (env\<lparr>delete_result := r\<rparr>) st act = notice_calls env st act"
  by (simp add: notice_calls_def)

lemma stages_delete_result [simp]:
  "stages eng (env\<lparr>delete_result := r\<rparr>) g admin = stages eng env g admin"
  by (simp add: stages_def split: option.splits)

lemma located_delete_result [simp]:
  "located eng (env\<lparr>delete_result := r\<rparr>) st = located eng env st"
  by (simp add: located_def split: option.splits sum.splits)

lemma enforce_delete_result:
  "calls (enforce eng (env\<lparr>delete_result := r\<rparr>) st msg g a act d rule s)
     = calls (enforce eng env st msg g a act d rule s)
   \<and> userWarnings (enforce eng (env\<lparr>delete_result := r\<rparr>) st msg g a act d rule s)
       = userWarnings (enforce eng env st msg g a act d rule s)
   \<and> pendingBans (enforce eng (env\<lparr>delete_result := r\<rparr>) st msg g a act d rule s)
       = pendingBans (enforce eng env st msg g a act d rule s)"
proof (cases "act = JStr ''warn''
           \<or> (act = JStr ''timeout''
               \<and> int (getWarningCount s (author_id msg)) < maxWarnings st)")
  case True
  then show ?thesis
    by (simp add: enforce_warn)
next
  case False
  then have 1: "act \<noteq> JStr ''warn''"
    and 2: "\<not> (act = JStr ''timeout''
             \<and> int (getWarningCount s (author_id msg)) < maxWarnings st)"
    by blast+
  show ?thesis
    by (simp add: enforce_other_calls [OF 1 2] enforce_other_ledger [OF 1 2]
        enforce_other_pending [OF 1 2] requestBan_pending split: option.splits)
qed

section \<open>Decision: the rule overrides the verdict\<close>

text \<open>
  C6, as amended. The primary violation is the first element of the verdict's violations
  (\<^verbatim>\<open>undefined\<close> when there is none). If it is a non-empty string and a rule has that id
  (the first such rule is taken), \<^verbatim>\<open>_takeAction\<close> goes on to enforce the rule's action,
  whatever the verdict suggests, with the rule's \<^verbatim>\<open>timeoutDuration\<close> when that is set and
  not 0; a rule whose \<^verbatim>\<open>timeoutDuration\<close> is 0 or absent leaves the verdict's suggested
  duration in place. If no rule has the primary violation as its id, the verdict's
  suggested action and duration are enforced. Enforcing an action \<open>act\<close> with duration
  \<open>d\<close> means: a warning, when \<open>act\<close> is \<open>warn\<close> or is a \<open>timeout\<close> softened by the
  warning threshold; otherwise the deletion of the message followed by the calls of
  \<open>act\<close> and by the notice to the offender. The calls of a timeout contain
  \<^verbatim>\<open>member.timeout\<close> with \<open>d\<close> times 1000 when the member is at hand and the arguments of
  the call can be computed; those of a kick contain \<^verbatim>\<open>member.kick\<close> for a kickable member
  at hand; those of a ban request are the calls of the request.
\<close>

theorem rule_overrides_verdict:
  "(violations a = [] \<longrightarrow> primaryViolation a = JUndefined)
   \<and> (\<forall>v vs. violations a = v # vs \<longrightarrow> primaryViolation a = v)
   \<and> (\<forall>rid r. primaryViolation a = JStr rid \<and> rid \<noteq> []
          \<and> find (\<lambda>x. rule_id x = rid) rules = Some r \<longrightarrow>
        resolved_action rules a = JStr (action r)
        \<and> resolved_duration rules a =
            (case timeoutDuration r of
               None \<Rightarrow> suggestedDuration a
             | Some n \<Rightarrow> if n = 0 then suggestedDuration a else JNum (Finite (of_nat n)))
        \<and> takeAction eng env st rules msg g a s =
            enforce eng env st msg g a (JStr (action r))
              (case timeoutDuration r of
                 None \<Rightarrow> suggestedDuration a
               | Some n \<Rightarrow> if n = 0 then suggestedDuration a else JNum (Finite (of_nat n)))
              (Some r) s)
   \<and> (find (\<lambda>x. JStr (rule_id x) = primaryViolation a) rules = None \<longrightarrow>
        resolved_action rules a = suggestedAction a
        \<and> resolved_duration rules a = suggestedDuration a
        \<and> takeAction eng env st rules msg g a s =
            enforce eng env st msg g a (suggestedAction a) (suggestedDuration a) None s)
   \<and> (\<forall>act d rule.
         (act = JStr ''warn''
          \<or> (act = JStr ''timeout''
              \<and> int (getWarningCount s (author_id msg)) < maxWarnings st) \<longrightarrow>
          calls (enforce eng env st msg g a act d rule s) = calls s @ reply_calls eng a
          \<and> userWarnings (enforce eng env st msg g a act d rule s) =
              (userWarnings s)(author_id msg \<mapsto> getWarningCount s (author_id msg) + 1))
         \<and> (act \<noteq> JStr ''warn''
             \<and> \<not> (act = JStr ''timeout''
                    \<and> int (getWarningCount s (author_id msg)) < maxWarnings st) \<longrightarrow>
             calls (enforce eng env st msg g a act d rule s) =
               calls s @ DeleteMessage # action_calls eng env st msg g a act d
                 @ notice_calls env st act
             \<and> userWarnings (enforce eng env st msg g a act d rule s) = userWarnings s))
   \<and> (\<forall>d m. member_of env msg = Inr m \<and> timeout_args_error eng d (reasoning a) = None \<longrightarrow>
         action_calls eng env st msg g a (JStr ''timeout'') d = timeout_calls eng env msg a d
         \<and> MemberTimeout (DurationTimes1000 d) \<in> set (timeout_calls eng env msg a d))
   \<and> (\<forall>d m. member_of env msg = Inr m \<and> kickable m
           \<and> template_error eng (reasoning a) = None \<longrightarrow>
         action_calls eng env st msg g a (JStr ''kick'') d = kick_calls eng env msg a
         \<and> MemberKick \<in> set (kick_calls eng env msg a))
   \<and> (\<forall>d. action_calls eng env st msg g a (JStr ''request_ban'') d
            = request_calls eng env st msg g a)"
proof (intro conjI allI impI)
  show "primaryViolation a = JUndefined" if "violations a = []"
    using that by (simp add: primaryViolation_def)
  show "primaryViolation a = v" if "violations a = v # vs" for v vs
    using that by (simp add: primaryViolation_def)
next
  fix rid r
  assume h: "primaryViolation a = JStr rid \<and> rid \<noteq> []
             \<and> find (\<lambda>x. rule_id x = rid) rules = Some r"
  then have f: "find_rule rules (primaryViolation a) = Some r"
    by (simp add: find_rule_def)
  show ra: "resolved_action rules a = JStr (action r)"
    using f by (simp add: resolved_action_def)
  show rd: "resolved_duration rules a =
            (case timeoutDuration r of
               None \<Rightarrow> suggestedDuration a
             | Some n \<Rightarrow> if n = 0 then suggestedDuration a else JNum (Finite (of_nat n)))"
    using f by (simp add: resolved_duration_def split: option.splits)
  show "takeAction eng env st rules msg g a s =
            enforce eng env st msg g a (JStr (action r))
              (case timeoutDuration r of
                 None \<Rightarrow> suggestedDuration a
               | Some n \<Rightarrow> if n = 0 then suggestedDuration a else JNum (Finite (of_nat n)))
              (Some r) s"
    unfolding takeAction_def ra rd f ..
next
  assume "find (\<lambda>x. JStr (rule_id x) = primaryViolation a) rules = None"
  then have f: "find_rule rules (primaryViolation a) = None"
    by (simp add: find_rule_def)
  show ra: "resolved_action rules a = suggestedAction a"
    using f by (simp add: resolved_action_def)
  show rd: "resolved_duration rules a = suggestedDuration a"
    using f by (simp add: resolved_duration_def)
  show "takeAction eng env st rules msg g a s =
            enforce eng env st msg g a (suggestedAction a) (suggestedDuration a) None s"
    unfolding takeAction_def ra rd f ..
next
  fix act d rule
  assume c: "act = JStr ''warn''
          \<or> (act = JStr ''timeout''
              \<and> int (getWarningCount s (author_id msg)) < maxWarnings st)"
  show "calls (enforce eng env st msg g a act d rule s) = calls s @ reply_calls eng a"
    by (rule enforce_warn(2) [OF c])
  show "userWarnings (enforce eng env st msg g a act d rule s) =
              (userWarnings s)(author_id msg \<mapsto> getWarningCount s (author_id msg) + 1)"
    by (rule enforce_warn(1) [OF c])
next
  fix act d rule
  assume "act \<noteq> JStr ''warn''
             \<and> \<not> (act = JStr ''timeout''
                    \<and> int (getWarningCount s (author_id msg)) < maxWarnings st)"
  then have 1: "act \<noteq> JStr ''warn''"
    and 2: "\<not> (act = JStr ''timeout''
             \<and> int (getWarningCount s (author_id msg)) < maxWarnings st)"
    by blast+
  show "calls (enforce eng env st msg g a act d rule s) =
               calls s @ DeleteMessage # action_calls eng env st msg g a act d
                 @ notice_calls env st act"
    by (rule enforce_other_calls [OF 1 2])
  show "userWarnings (enforce eng env st msg g a act d rule s) = userWarnings s"
    by (rule enforce_other_ledger [OF 1 2])
next
  fix d m
  assume h: "member_of env msg = Inr m \<and> timeout_args_error eng d (reasoning a) = None"
  show "action_calls eng env st msg g a (JStr ''timeout'') d = timeout_calls eng env msg a d"
    by (simp add: action_calls_def)
  show "MemberTimeout (DurationTimes1000 d) \<in> set (timeout_calls eng env msg a d)"
    using h by (simp add: timeout_calls_def)
next
  fix d m
  assume h: "member_of env msg = Inr m \<and> kickable m \<and> template_error eng (reasoning a) = None"
  show "action_calls eng env st msg g a (JStr ''kick'') d = kick_calls eng env msg a"
    by (simp add: action_calls_def)
  show "MemberKick \<in> set (kick_calls eng env msg a)"
    using h by (simp add: kick_calls_def)
next
  fix d
  show "action_calls eng env st msg g a (JStr ''request_ban'') d
            = request_calls eng env st msg g a"
    by (simp add: action_calls_def)
qed

text \<open>
  C6 as stated fails for a rule configured with \<^verbatim>\<open>timeoutDuration = 0\<close>: the rule is found
  and its action is taken, but the timeout is executed with the verdict's suggested 600
  seconds, not with the rule's 0.
\<close>

theorem rule_overrides_verdict_counterexample:
  "primaryViolation ex_verdict = JStr ''spam''
   \<and> find (\<lambda>x. rule_id x = ''spam'') [zero_rule] = Some zero_rule
   \<and> action zero_rule = ''timeout'' \<and> timeoutDuration zero_rule = Some 0
   \<and> suggestedDuration ex_verdict = JNum (Finite 600)
   \<and> resolved_duration [zero_rule] ex_verdict = JNum (Finite 600)
   \<and> calls (takeAction ex_engine ex_env ex_settings [zero_rule] ex_msg ex_guild ex_verdict
              (ex_bot\<lparr>userWarnings := [''42'' \<mapsto> 2]\<rparr>))
       = [DeleteMessage, MemberTimeout (DurationTimes1000 (JNum (Finite 600)))]"
  by (simp add: primaryViolation_def ex_verdict_def zero_rule_def resolved_duration_def
      resolved_action_def find_rule_def takeAction_def enforce_def getWarningCount_def
      maxWarnings_def ex_settings_def ex_bot_def ex_msg_def deleteMessage_def ex_env_def
      timeoutUser_def timeout_args_error_def get_member_def Let_def logit_def docall_def)

text \<open>
  C6 at concrete inputs: the rule \<open>spam\<close> overrides the suggested warning by a timeout of
  300 seconds, which is executed for a user with two warnings; a rule set without the
  violated id leaves the suggestion in place, and the suggested warning is executed.
\<close>

theorem rule_overrides_verdict_witness:
  "primaryViolation ex_verdict = JStr ''spam'' \<and> ''spam'' \<noteq> []
   \<and> find (\<lambda>x. rule_id x = ''spam'') [spam_rule] = Some spam_rule
   \<and> resolved_action [spam_rule] ex_verdict = JStr ''timeout''
   \<and> resolved_duration [spam_rule] ex_verdict = JNum (Finite 300)
   \<and> find (\<lambda>x. JStr (rule_id x) = primaryViolation ex_verdict) [ban_rule] = None
   \<and> resolved_action [ban_rule] ex_verdict = JStr ''warn''
   \<and> resolved_duration [ban_rule] ex_verdict = JNum (Finite 600)
   \<and> \<not> int (getWarningCount (ex_bot\<lparr>userWarnings := [''42'' \<mapsto> 2]\<rparr>) (author_id ex_msg))
         < maxWarnings ex_settings
   \<and> member_of ex_env ex_msg = Inr ex_member
   \<and> timeout_args_error ex_engine (JNum (Finite 300)) (reasoning ex_verdict) = None
   \<and> calls (takeAction ex_engine ex_env ex_settings [spam_rule] ex_msg ex_guild ex_verdict
              (ex_bot\<lparr>userWarnings := [''42'' \<mapsto> 2]\<rparr>))
       = [DeleteMessage, MemberTimeout (DurationTimes1000 (JNum (Finite 300)))]
   \<and> calls (takeAction ex_engine ex_env ex_settings [ban_rule] ex_msg ex_guild ex_verdict ex_bot)
       = []
   \<and> userWarnings (takeAction ex_engine ex_env ex_settings [ban_rule] ex_msg ex_guild
                     ex_verdict ex_bot) ''42'' = Some 1"
proof -
  let ?two = "ex_bot\<lparr>userWarnings := [''42'' \<mapsto> 2]\<rparr>"
  have pv: "primaryViolation ex_verdict = JStr ''spam''"
    by (simp add: primaryViolation_def ex_verdict_def)
  have f1: "find (\<lambda>x. rule_id x = ''spam'') [spam_rule] = Some spam_rule"
    by (simp add: spam_rule_def)
  have f2: "find (\<lambda>x. JStr (rule_id x) = primaryViolation ex_verdict) [ban_rule] = None"
    by (simp add: pv ban_rule_def)
  have w2: "\<not> int (getWarningCount ?two (author_id ex_msg)) < maxWarnings ex_settings"
    by (simp add: getWarningCount_def ex_msg_def maxWarnings_def ex_settings_def)
  have w0: "int (getWarningCount ex_bot (author_id ex_msg)) < maxWarnings ex_settings"
    by (simp add: getWarningCount_def ex_bot_def maxWarnings_def ex_settings_def)
  have m: "member_of ex_env ex_msg = Inr ex_member"
    by (simp add: member_of_def ex_msg_def)
  have ok: "timeout_args_error ex_engine (JNum (Finite 300)) (reasoning ex_verdict) = None"
    by (simp add: timeout_args_error_def ex_verdict_def)
  note t1 = rule_overrides_verdict [of ex_verdict "[spam_rule]" ex_engine ex_env ex_settings
      ex_msg ex_guild ?two]
  note t2 = rule_overrides_verdict [of ex_verdict "[ban_rule]" ex_engine ex_env ex_settings
      ex_msg ex_guild ex_bot]
  have a1: "resolved_action [spam_rule] ex_verdict = JStr (action spam_rule)"
    and d1: "resolved_duration [spam_rule] ex_verdict =
            (case timeoutDuration spam_rule of
               None \<Rightarrow> suggestedDuration ex_verdict
             | Some n \<Rightarrow> if n = 0 then suggestedDuration ex_verdict
                          else JNum (Finite (of_nat n)))"
    and e1: "takeAction ex_engine ex_env ex_settings [spam_rule] ex_msg ex_guild ex_verdict ?two =
            enforce ex_engine ex_env ex_settings ex_msg ex_guild ex_verdict
              (JStr (action spam_rule))
              (case timeoutDuration spam_rule of
                 None \<Rightarrow> suggestedDuration ex_verdict
               | Some n \<Rightarrow> if n = 0 then suggestedDuration ex_verdict
                            else JNum (Finite (of_nat n)))
              (Some spam_rule) ?two"
    using t1 pv f1 by blast+
  have a2: "resolved_action [ban_rule] ex_verdict = suggestedAction ex_verdict"
    and d2: "resolved_duration [ban_rule] ex_verdict = suggestedDuration ex_verdict"
    and e2: "takeAction ex_engine ex_env ex_settings [ban_rule] ex_msg ex_guild ex_verdict ex_bot =
            enforce ex_engine ex_env ex_settings ex_msg ex_guild ex_verdict
              (suggestedAction ex_verdict) (suggestedDuration ex_verdict) None ex_bot"
    using t2 f2 by blast+
  have a1': "resolved_action [spam_rule] ex_verdict = JStr ''timeout''"
    using a1 by (simp add: spam_rule_def)
  have d1': "resolved_duration [spam_rule] ex_verdict = JNum (Finite 300)"
    using d1 by (simp add: spam_rule_def)
  have e1': "takeAction ex_engine ex_env ex_settings [spam_rule] ex_msg ex_guild ex_verdict ?two =
            enforce ex_engine ex_env ex_settings ex_msg ex_guild ex_verdict
              (JStr ''timeout'') (JNum (Finite 300)) (Some spam_rule) ?two"
    using e1 by (simp add: spam_rule_def)
  have c1: "calls (enforce ex_engine ex_env ex_settings ex_msg ex_guild ex_verdict
              (JStr ''timeout'') (JNum (Finite 300)) (Some spam_rule) ?two) =
            calls ?two @ DeleteMessage
              # action_calls ex_engine ex_env ex_settings ex_msg ex_guild ex_verdict
                  (JStr ''timeout'') (JNum (Finite 300))
              @ notice_calls ex_env ex_settings (JStr ''timeout'')"
    using t1 w2 by blast
  have tc: "timeout_calls ex_engine ex_env ex_msg ex_verdict (JNum (Finite 300))
              = [MemberTimeout (DurationTimes1000 (JNum (Finite 300)))]"
    using m ok by (simp add: timeout_calls_def ex_msg_def ex_verdict_def ex_env_def)
  have c1': "calls (takeAction ex_engine ex_env ex_settings [spam_rule] ex_msg ex_guild
               ex_verdict ?two) = [DeleteMessage, MemberTimeout (DurationTimes1000 (JNum (Finite 300)))]"
    unfolding e1' c1
    by (simp add: action_calls_def tc notice_calls_def ex_settings_def ex_bot_def)
  have sw: "suggestedAction ex_verdict = JStr ''warn''"
    by (simp add: ex_verdict_def)
  have c2: "calls (enforce ex_engine ex_env ex_settings ex_msg ex_guild ex_verdict
              (JStr ''warn'') (suggestedDuration ex_verdict) None ex_bot)
            = calls ex_bot @ reply_calls ex_engine ex_verdict"
    and u2: "userWarnings (enforce ex_engine ex_env ex_settings ex_msg ex_guild ex_verdict
              (JStr ''warn'') (suggestedDuration ex_verdict) None ex_bot)
            = (userWarnings ex_bot)(author_id ex_msg \<mapsto>
                 getWarningCount ex_bot (author_id ex_msg) + 1)"
    using t2 by blast+
  have c2': "calls (takeAction ex_engine ex_env ex_settings [ban_rule] ex_msg ex_guild
               ex_verdict ex_bot) = []"
    unfolding e2 sw c2 by (simp add: reply_calls_def ex_verdict_def ex_bot_def)
  have u2': "userWarnings (takeAction ex_engine ex_env ex_settings [ban_rule] ex_msg ex_guild
               ex_verdict ex_bot) ''42'' = Some 1"
    unfolding e2 sw u2 by (simp add: ex_msg_def getWarningCount_def ex_bot_def)
  show ?thesis
    using pv f1 f2 w2 m ok a1' d1' a2 d2 c1' c2' u2' by (simp add: ex_verdict_def)
qed

section \<open>Decision: escalation softening\<close>

text \<open>
  C2, as amended. The threshold is \<^verbatim>\<open>settings.warningsBeforeAction || 2\<close>: the configured
  value, or 2 when none is configured or when it is 0. For a resolved action \<open>timeout\<close>
  and a user whose warning count \<open>w\<close> is below the threshold, a warning is executed
  instead: the ledger becomes \<open>w + 1\<close>, a \<open>warn\<close> entry is audited and nothing is called
  on the platform but the optional reply. At or above the threshold the timeout is not
  softened: the ledger is unchanged, the message is deleted and the calls of a timeout of
  the resolved duration follow, among them \<^verbatim>\<open>member.timeout\<close> when the member is at hand
  and the arguments of the call can be computed. A resolved \<open>warn\<close> is executed as a
  warning; a resolved \<open>kick\<close> or \<open>request_ban\<close> is never softened: the ledger is
  unchanged, the message is deleted, and the calls of the kick, respectively of the ban
  request, follow; the request is recorded when it can be built.
\<close>

theorem escalation_softening:
  "maxWarnings st =
     (case warningsBeforeAction st of None \<Rightarrow> 2 | Some n \<Rightarrow> if n = 0 then 2 else n)
   \<and> (resolved_action rules a = JStr ''timeout''
        \<and> int (getWarningCount s (author_id msg)) < maxWarnings st \<longrightarrow>
        userWarnings (takeAction eng env st rules msg g a s) =
          (userWarnings s)(author_id msg \<mapsto> getWarningCount s (author_id msg) + 1)
        \<and> calls (takeAction eng env st rules msg g a s) = calls s @ reply_calls eng a
        \<and> logs (takeAction eng env st rules msg g a s) =
            logs s @ [ModAction ''warn'' (author_id msg) (primaryViolation a)
                        (severity_or (find_rule rules (primaryViolation a)) ''low'') JNull])
   \<and> (resolved_action rules a = JStr ''timeout''
        \<and> \<not> int (getWarningCount s (author_id msg)) < maxWarnings st \<longrightarrow>
        userWarnings (takeAction eng env st rules msg g a s) = userWarnings s
        \<and> calls (takeAction eng env st rules msg g a s) =
            calls s @ DeleteMessage # timeout_calls eng env msg a (resolved_duration rules a)
              @ notice_calls env st (JStr ''timeout'')
        \<and> (\<forall>m. member_of env msg = Inr m
                 \<and> timeout_args_error eng (resolved_duration rules a) (reasoning a) = None \<longrightarrow>
              MemberTimeout (DurationTimes1000 (resolved_duration rules a))
                \<in> set (timeout_calls eng env msg a (resolved_duration rules a))))
   \<and> (resolved_action rules a = JStr ''warn'' \<longrightarrow>
        userWarnings (takeAction eng env st rules msg g a s) =
          (userWarnings s)(author_id msg \<mapsto> getWarningCount s (author_id msg) + 1)
        \<and> calls (takeAction eng env st rules msg g a s) = calls s @ reply_calls eng a
        \<and> logs (takeAction eng env st rules msg g a s) =
            logs s @ [ModAction ''warn'' (author_id msg) (primaryViolation a)
                        (severity_or (find_rule rules (primaryViolation a)) ''low'') JNull])
   \<and> (resolved_action rules a = JStr ''kick'' \<longrightarrow>
        userWarnings (takeAction eng env st rules msg g a s) = userWarnings s
        \<and> calls (takeAction eng env st rules msg g a s) =
            calls s @ DeleteMessage # kick_calls eng env msg a @ notice_calls env st (JStr ''kick'')
        \<and> (\<forall>m. member_of env msg = Inr m \<and> kickable m
                 \<and> template_error eng (reasoning a) = None \<longrightarrow>
              MemberKick \<in> set (kick_calls eng env msg a)))
   \<and> (resolved_action rules a = JStr ''request_ban'' \<longrightarrow>
        userWarnings (takeAction eng env st rules msg g a s) = userWarnings s
        \<and> calls (takeAction eng env st rules msg g a s) =
            calls s @ DeleteMessage # request_calls eng env st msg g a
              @ notice_calls env st (JStr ''request_ban'')
        \<and> (embed_result env = None \<longrightarrow>
              pendingBans (takeAction eng env st rules msg g a s)
                (pending_key (author_id msg) (guild_id g)) \<noteq> None))"
proof (intro conjI impI allI)
  show "maxWarnings st =
     (case warningsBeforeAction st of None \<Rightarrow> 2 | Some n \<Rightarrow> if n = 0 then 2 else n)"
    by (simp add: maxWarnings_def)
next
  assume h: "resolved_action rules a = JStr ''timeout''
        \<and> int (getWarningCount s (author_id msg)) < maxWarnings st"
  then have c: "resolved_action rules a = JStr ''warn''
           \<or> (resolved_action rules a = JStr ''timeout''
               \<and> int (getWarningCount s (author_id msg)) < maxWarnings st)"
    by blast
  show "userWarnings (takeAction eng env st rules msg g a s) =
          (userWarnings s)(author_id msg \<mapsto> getWarningCount s (author_id msg) + 1)"
    unfolding takeAction_def by (rule enforce_warn(1) [OF c])
  show "calls (takeAction eng env st rules msg g a s) = calls s @ reply_calls eng a"
    unfolding takeAction_def by (rule enforce_warn(2) [OF c])
  show "logs (takeAction eng env st rules msg g a s) =
            logs s @ [ModAction ''warn'' (author_id msg) (primaryViolation a)
                        (severity_or (find_rule rules (primaryViolation a)) ''low'') JNull]"
    unfolding takeAction_def by (rule enforce_warn(3) [OF c])
next
  assume h: "resolved_action rules a = JStr ''timeout''
        \<and> \<not> int (getWarningCount s (author_id msg)) < maxWarnings st"
  then have 1: "resolved_action rules a \<noteq> JStr ''warn''"
    and 2: "\<not> (resolved_action rules a = JStr ''timeout''
             \<and> int (getWarningCount s (author_id msg)) < maxWarnings st)"
    by auto
  show "userWarnings (takeAction eng env st rules msg g a s) = userWarnings s"
    unfolding takeAction_def by (rule enforce_other_ledger [OF 1 2])
  show "calls (takeAction eng env st rules msg g a s) =
            calls s @ DeleteMessage # timeout_calls eng env msg a (resolved_duration rules a)
              @ notice_calls env st (JStr ''timeout'')"
    unfolding takeAction_def enforce_other_calls [OF 1 2] using h
    by (simp add: action_calls_def)
next
  fix m
  assume "member_of env msg = Inr m
          \<and> timeout_args_error eng (resolved_duration rules a) (reasoning a) = None"
  then show "MemberTimeout (DurationTimes1000 (resolved_duration rules a))
                \<in> set (timeout_calls eng env msg a (resolved_duration rules a))"
    by (simp add: timeout_calls_def)
next
  assume h: "resolved_action rules a = JStr ''warn''"
  then have c: "resolved_action rules a = JStr ''warn''
           \<or> (resolved_action rules a = JStr ''timeout''
               \<and> int (getWarningCount s (author_id msg)) < maxWarnings st)"
    by blast
  show "userWarnings (takeAction eng env st rules msg g a s) =
          (userWarnings s)(author_id msg \<mapsto> getWarningCount s (author_id msg) + 1)"
    unfolding takeAction_def by (rule enforce_warn(1) [OF c])
  show "calls (takeAction eng env st rules msg g a s) = calls s @ reply_calls eng a"
    unfolding takeAction_def by (rule enforce_warn(2) [OF c])
  show "logs (takeAction eng env st rules msg g a s) =
            logs s @ [ModAction ''warn'' (author_id msg) (primaryViolation a)
                        (severity_or (find_rule rules (primaryViolation a)) ''low'') JNull]"
    unfolding takeAction_def by (rule enforce_warn(3) [OF c])
next
  assume h: "resolved_action rules a = JStr ''kick''"
  then have 1: "resolved_action rules a \<noteq> JStr ''warn''"
    and 2: "\<not> (resolved_action rules a = JStr ''timeout''
             \<and> int (getWarningCount s (author_id msg)) < maxWarnings st)"
    by auto
  show "userWarnings (takeAction eng env st rules msg g a s) = userWarnings s"
    unfolding takeAction_def by (rule enforce_other_ledger [OF 1 2])
  show "calls (takeAction eng env st rules msg g a s) =
            calls s @ DeleteMessage # kick_calls eng env msg a @ notice_calls env st (JStr ''kick'')"
    unfolding takeAction_def enforce_other_calls [OF 1 2] using h
    by (simp add: action_calls_def)
next
  fix m
  assume "member_of env msg = Inr m \<and> kickable m \<and> template_error eng (reasoning a) = None"
  then show "MemberKick \<in> set (kick_calls eng env msg a)"
    by (simp add: kick_calls_def)
next
  assume h: "resolved_action rules a = JStr ''request_ban''"
  then have 1: "resolved_action rules a \<noteq> JStr ''warn''"
    and 2: "\<not> (resolved_action rules a = JStr ''timeout''
             \<and> int (getWarningCount s (author_id msg)) < maxWarnings st)"
    by auto
  show "userWarnings (takeAction eng env st rules msg g a s) = userWarnings s"
    unfolding takeAction_def by (rule enforce_other_ledger [OF 1 2])
  show "calls (takeAction eng env st rules msg g a s) =
            calls s @ DeleteMessage # request_calls eng env st msg g a
              @ notice_calls env st (JStr ''request_ban'')"
    unfolding takeAction_def enforce_other_calls [OF 1 2] using h
    by (simp add: action_calls_def)
  show "pendingBans (takeAction eng env st rules msg g a s)
                (pending_key (author_id msg) (guild_id g)) \<noteq> None"
    if "embed_result env = None"
    unfolding takeAction_def enforce_other_pending [OF 1 2] using h that
    by (simp add: requestBan_pending)
qed

text \<open>
  C2 as stated fails for a configured threshold of 0: a user with no warning has a count
  equal to the threshold, yet the timeout is softened to a warning, because the code reads
  a threshold of 0 as unset and uses 2.
\<close>

theorem escalation_softening_counterexample:
  "warningsBeforeAction (ex_settings\<lparr>warningsBeforeAction := Some 0\<rparr>) = Some 0
   \<and> getWarningCount ex_bot (author_id ex_msg) = 0
   \<and> resolved_action [spam_rule] ex_verdict = JStr ''timeout''
   \<and> calls (takeAction ex_engine ex_env (ex_settings\<lparr>warningsBeforeAction := Some 0\<rparr>)
              [spam_rule] ex_msg ex_guild ex_verdict ex_bot) = []
   \<and> logs (takeAction ex_engine ex_env (ex_settings\<lparr>warningsBeforeAction := Some 0\<rparr>)
              [spam_rule] ex_msg ex_guild ex_verdict ex_bot)
       = [ModAction ''warn'' ''42'' (JStr ''spam'') ''medium'' JNull]
   \<and> userWarnings (takeAction ex_engine ex_env (ex_settings\<lparr>warningsBeforeAction := Some 0\<rparr>)
              [spam_rule] ex_msg ex_guild ex_verdict ex_bot) ''42'' = Some 1"
  by (simp add: primaryViolation_def ex_verdict_def spam_rule_def resolved_duration_def
      resolved_action_def find_rule_def takeAction_def enforce_def getWarningCount_def
      maxWarnings_def ex_settings_def ex_bot_def ex_msg_def addWarning_def severity_or_def
      Let_def logit_def docall_def)

text \<open>
  C2 at the two scenarios of the specification: rule \<open>spam\<close> with a timeout of 300
  seconds and threshold 2; a user with no warning is warned and the ledger becomes 1; a
  user with two warnings is timed out for 300 seconds and the ledger stays at 2.
\<close>

theorem escalation_softening_witness:
  "resolved_action [spam_rule] ex_verdict = JStr ''timeout''
   \<and> int (getWarningCount ex_bot (author_id ex_msg)) < maxWarnings ex_settings
   \<and> userWarnings (takeAction ex_engine ex_env ex_settings [spam_rule] ex_msg ex_guild
                     ex_verdict ex_bot) ''42'' = Some 1
   \<and> calls (takeAction ex_engine ex_env ex_settings [spam_rule] ex_msg ex_guild ex_verdict
              ex_bot) = []
   \<and> \<not> int (getWarningCount (ex_bot\<lparr>userWarnings := [''42'' \<mapsto> 2]\<rparr>) (author_id ex_msg))
         < maxWarnings ex_settings
   \<and> member_of ex_env ex_msg = Inr ex_member
   \<and> timeout_args_error ex_engine (resolved_duration [spam_rule] ex_verdict)
        (reasoning ex_verdict) = None
   \<and> userWarnings (takeAction ex_engine ex_env ex_settings [spam_rule] ex_msg ex_guild
                     ex_verdict (ex_bot\<lparr>userWarnings := [''42'' \<mapsto> 2]\<rparr>)) ''42'' = Some 2
   \<and> calls (takeAction ex_engine ex_env ex_settings [spam_rule] ex_msg ex_guild ex_verdict
              (ex_bot\<lparr>userWarnings := [''42'' \<mapsto> 2]\<rparr>))
       = [DeleteMessage, MemberTimeout (DurationTimes1000 (JNum (Finite 300)))]"
proof -
  let ?two = "ex_bot\<lparr>userWarnings := [''42'' \<mapsto> 2]\<rparr>"
  have act: "resolved_action [spam_rule] ex_verdict = JStr ''timeout''"
    by (simp add: resolved_action_def find_rule_def primaryViolation_def ex_verdict_def
        spam_rule_def)
  have dur: "resolved_duration [spam_rule] ex_verdict = JNum (Finite 300)"
    by (simp add: resolved_duration_def find_rule_def primaryViolation_def ex_verdict_def
        spam_rule_def)
  have w0: "int (getWarningCount ex_bot (author_id ex_msg)) < maxWarnings ex_settings"
    by (simp add: getWarningCount_def ex_bot_def maxWarnings_def ex_settings_def)
  have w2: "\<not> int (getWarningCount ?two (author_id ex_msg)) < maxWarnings ex_settings"
    by (simp add: getWarningCount_def ex_msg_def maxWarnings_def ex_settings_def)
  have m: "member_of ex_env ex_msg = Inr ex_member"
    by (simp add: member_of_def ex_msg_def)
  have ok: "timeout_args_error ex_engine (resolved_duration [spam_rule] ex_verdict)
              (reasoning ex_verdict) = None"
    unfolding dur by (simp add: timeout_args_error_def ex_verdict_def)
  note t0 = escalation_softening [of ex_settings "[spam_rule]" ex_verdict ex_bot ex_msg
      ex_engine ex_env ex_guild]
  note t2 = escalation_softening [of ex_settings "[spam_rule]" ex_verdict ?two ex_msg
      ex_engine ex_env ex_guild]
  have u0: "userWarnings (takeAction ex_engine ex_env ex_settings [spam_rule] ex_msg ex_guild
              ex_verdict ex_bot) = (userWarnings ex_bot)(author_id ex_msg \<mapsto>
                           getWarningCount ex_bot (author_id ex_msg) + 1)"
    and c0: "calls (takeAction ex_engine ex_env ex_settings [spam_rule] ex_msg ex_guild
              ex_verdict ex_bot) = calls ex_bot @ reply_calls ex_engine ex_verdict"
    using t0 act w0 by blast+
  have u2: "userWarnings (takeAction ex_engine ex_env ex_settings [spam_rule] ex_msg ex_guild
              ex_verdict ?two) = userWarnings ?two"
    and c2: "calls (takeAction ex_engine ex_env ex_settings [spam_rule] ex_msg ex_guild
              ex_verdict ?two) =
            calls ?two @ DeleteMessage
              # timeout_calls ex_engine ex_env ex_msg ex_verdict
                  (resolved_duration [spam_rule] ex_verdict)
              @ notice_calls ex_env ex_settings (JStr ''timeout'')"
    using t2 act w2 by blast+
  have tc: "timeout_calls ex_engine ex_env ex_msg ex_verdict
              (resolved_duration [spam_rule] ex_verdict)
              = [MemberTimeout (DurationTimes1000 (JNum (Finite 300)))]"
    using m ok unfolding dur by (simp add: timeout_calls_def ex_msg_def ex_verdict_def ex_env_def)
  have c2': "calls (takeAction ex_engine ex_env ex_settings [spam_rule] ex_msg ex_guild
              ex_verdict ?two)
           = [DeleteMessage, MemberTimeout (DurationTimes1000 (JNum (Finite 300)))]"
    unfolding c2 tc by (simp add: notice_calls_def ex_settings_def ex_bot_def)
  have c0': "calls (takeAction ex_engine ex_env ex_settings [spam_rule] ex_msg ex_guild
              ex_verdict ex_bot) = []"
    unfolding c0 by (simp add: reply_calls_def ex_verdict_def ex_bot_def)
  show ?thesis
    using act w0 w2 m ok u0 c0' u2 c2'
    by (simp add: ex_msg_def ex_bot_def getWarningCount_def)
qed

section \<open>Enforcement: deletion of the message\<close>

text \<open>
  C8. When the executed action is a warning (a resolved \<open>warn\<close>, or a \<open>timeout\<close> softened
  to one), the only call made is the optional reply: the message is not deleted. For every
  other action the first call is the deletion of the message, and the calls of the action
  and of the notice to the offender follow it. A failed deletion is the first entry logged
  and prevents nothing: the calls made, the warning ledger and the pending-ban map are the
  same for every result \<open>r\<close> of the deletion. The calls of the action are those of a
  timeout, with \<^verbatim>\<open>member.timeout\<close> among them when the member is at hand and the arguments
  can be computed; those of a kick, with \<^verbatim>\<open>member.kick\<close> among them for a kickable member
  at hand; or those of a ban request, the restraint and then the deliveries.
\<close>

theorem warn_keeps_message_others_delete_first:
  "(resolved_action rules a = JStr ''warn''
      \<or> (resolved_action rules a = JStr ''timeout''
          \<and> int (getWarningCount s (author_id msg)) < maxWarnings st) \<longrightarrow>
      calls (takeAction eng env st rules msg g a s) = calls s @ reply_calls eng a
      \<and> DeleteMessage \<notin> set (reply_calls eng a)
      \<and> logs (takeAction eng env st rules msg g a s) =
          logs s @ [ModAction ''warn'' (author_id msg) (primaryViolation a)
                      (severity_or (find_rule rules (primaryViolation a)) ''low'') JNull])
   \<and> (resolved_action rules a \<noteq> JStr ''warn''
       \<and> \<not> (resolved_action rules a = JStr ''timeout''
              \<and> int (getWarningCount s (author_id msg)) < maxWarnings st) \<longrightarrow>
       calls (takeAction eng env st rules msg g a s) =
         calls s @ DeleteMessage
           # action_calls eng env st msg g a (resolved_action rules a) (resolved_duration rules a)
           @ notice_calls env st (resolved_action rules a)
       \<and> (\<forall>e. delete_result env = Some e \<longrightarrow>
            (\<exists>es. logs (takeAction eng env st rules msg g a s) =
                    logs s @ ErrorLog e ''Failed to delete message'' # es)))
   \<and> (\<forall>r. calls (takeAction eng (env\<lparr>delete_result := r\<rparr>) st rules msg g a s)
             = calls (takeAction eng env st rules msg g a s)
           \<and> userWarnings (takeAction eng (env\<lparr>delete_result := r\<rparr>) st rules msg g a s)
               = userWarnings (takeAction eng env st rules msg g a s)
           \<and> pendingBans (takeAction eng (env\<lparr>delete_result := r\<rparr>) st rules msg g a s)
               = pendingBans (takeAction eng env st rules msg g a s))
   \<and> (\<forall>d. action_calls eng env st msg g a (JStr ''timeout'') d = timeout_calls eng env msg a d
           \<and> action_calls eng env st msg g a (JStr ''kick'') d = kick_calls eng env msg a
           \<and> action_calls eng env st msg g a (JStr ''request_ban'') d
               = restraint_calls eng env msg a
                 @ (case embed_result env of
                      None \<Rightarrow> until_success (stages eng env g (located eng env st))
                    | Some e \<Rightarrow> []))
   \<and> (\<forall>d m. member_of env msg = Inr m \<and> timeout_args_error eng d (reasoning a) = None \<longrightarrow>
         MemberTimeout (DurationTimes1000 d) \<in> set (timeout_calls eng env msg a d))
   \<and> (\<forall>m. member_of env msg = Inr m \<and> kickable m
          \<and> template_error eng (reasoning a) = None \<longrightarrow>
         MemberKick \<in> set (kick_calls eng env msg a))"
proof (intro conjI impI allI)
  assume c: "resolved_action rules a = JStr ''warn''
      \<or> (resolved_action rules a = JStr ''timeout''
          \<and> int (getWarningCount s (author_id msg)) < maxWarnings st)"
  show "calls (takeAction eng env st rules msg g a s) = calls s @ reply_calls eng a"
    unfolding takeAction_def by (rule enforce_warn(2) [OF c])
  show "DeleteMessage \<notin> set (reply_calls eng a)"
    by (simp add: reply_calls_def)
  show "logs (takeAction eng env st rules msg g a s) =
          logs s @ [ModAction ''warn'' (author_id msg) (primaryViolation a)
                      (severity_or (find_rule rules (primaryViolation a)) ''low'') JNull]"
    unfolding takeAction_def by (rule enforce_warn(3) [OF c])
next
  assume h: "resolved_action rules a \<noteq> JStr ''warn''
       \<and> \<not> (resolved_action rules a = JStr ''timeout''
              \<and> int (getWarningCount s (author_id msg)) < maxWarnings st)"
  then have 1: "resolved_action rules a \<noteq> JStr ''warn''"
    and 2: "\<not> (resolved_action rules a = JStr ''timeout''
             \<and> int (getWarningCount s (author_id msg)) < maxWarnings st)"
    by blast+
  show "calls (takeAction eng env st rules msg g a s) =
         calls s @ DeleteMessage
           # action_calls eng env st msg g a (resolved_action rules a) (resolved_duration rules a)
           @ notice_calls env st (resolved_action rules a)"
    unfolding takeAction_def by (rule enforce_other_calls [OF 1 2])
  show "\<exists>es. logs (takeAction eng env st rules msg g a s) =
                    logs s @ ErrorLog e ''Failed to delete message'' # es"
    if "delete_result env = Some e" for e
    unfolding takeAction_def
    using enforce_other_logs [OF 1 2, of eng env g a "resolved_duration rules a"
        "find_rule rules (primaryViolation a)"] that
    by auto
next
  fix r
  show "calls (takeAction eng (env\<lparr>delete_result := r\<rparr>) st rules msg g a s)
             = calls (takeAction eng env st rules msg g a s)"
    and "userWarnings (takeAction eng (env\<lparr>delete_result := r\<rparr>) st rules msg g a s)
               = userWarnings (takeAction eng env st rules msg g a s)"
    and "pendingBans (takeAction eng (env\<lparr>delete_result := r\<rparr>) st rules msg g a s)
               = pendingBans (takeAction eng env st rules msg g a s)"
    unfolding takeAction_def by (simp_all add: enforce_delete_result)
next
  fix d
  show "action_calls eng env st msg g a (JStr ''timeout'') d = timeout_calls eng env msg a d"
    and "action_calls eng env st msg g a (JStr ''kick'') d = kick_calls eng env msg a"
    and "action_calls eng env st msg g a (JStr ''request_ban'') d
               = restraint_calls eng env msg a
                 @ (case embed_result env of
                      None \<Rightarrow> until_success (stages eng env g (located eng env st))
                    | Some e \<Rightarrow> [])"
    by (simp_all add: action_calls_def request_calls_def)
next
  fix d m
  assume "member_of env msg = Inr m \<and> timeout_args_error eng d (reasoning a) = None"
  then show "MemberTimeout (DurationTimes1000 d) \<in> set (timeout_calls eng env msg a d)"
    by (simp add: timeout_calls_def)
next
  fix m
  assume "member_of env msg = Inr m \<and> kickable m \<and> template_error eng (reasoning a) = None"
  then show "MemberKick \<in> set (kick_calls eng env msg a)"
    by (simp add: kick_calls_def)
qed

text \<open>
  C8 at concrete inputs: the softened timeout of a user with no warning calls nothing, and
  the timeout of a user with two warnings, on a platform that rejects the deletion, still
  attempts the deletion first, logs its failure and calls the timeout.
\<close>

theorem warn_keeps_message_others_delete_first_witness:
  "(resolved_action [spam_rule] ex_verdict = JStr ''warn''
      \<or> (resolved_action [spam_rule] ex_verdict = JStr ''timeout''
          \<and> int (getWarningCount ex_bot (author_id ex_msg)) < maxWarnings ex_settings))
   \<and> calls (takeAction ex_engine ex_env ex_settings [spam_rule] ex_msg ex_guild ex_verdict
              ex_bot) = []
   \<and> resolved_action [spam_rule] ex_verdict \<noteq> JStr ''warn''
   \<and> \<not> (resolved_action [spam_rule] ex_verdict = JStr ''timeout''
          \<and> int (getWarningCount (ex_bot\<lparr>userWarnings := [''42'' \<mapsto> 2]\<rparr>) (author_id ex_msg))
              < maxWarnings ex_settings)
   \<and> delete_result (ex_env\<lparr>delete_result := Some ''Unknown Message''\<rparr>) = Some ''Unknown Message''
   \<and> member_of (ex_env\<lparr>delete_result := Some ''Unknown Message''\<rparr>) ex_msg = Inr ex_member
   \<and> timeout_args_error ex_engine (JNum (Finite 300)) (reasoning ex_verdict) = None
   \<and> calls (takeAction ex_engine (ex_env\<lparr>delete_result := Some ''Unknown Message''\<rparr>)
              ex_settings [spam_rule] ex_msg ex_guild ex_verdict
              (ex_bot\<lparr>userWarnings := [''42'' \<mapsto> 2]\<rparr>))
       = [DeleteMessage, MemberTimeout (DurationTimes1000 (JNum (Finite 300)))]
   \<and> take 1 (logs (takeAction ex_engine (ex_env\<lparr>delete_result := Some ''Unknown Message''\<rparr>)
                      ex_settings [spam_rule] ex_msg ex_guild ex_verdict
                      (ex_bot\<lparr>userWarnings := [''42'' \<mapsto> 2]\<rparr>)))
       = [ErrorLog ''Unknown Message'' ''Failed to delete message'']"
proof -
  let ?two = "ex_bot\<lparr>userWarnings := [''42'' \<mapsto> 2]\<rparr>"
  let ?env = "ex_env\<lparr>delete_result := Some ''Unknown Message''\<rparr>"
  have act: "resolved_action [spam_rule] ex_verdict = JStr ''timeout''"
    by (simp add: resolved_action_def find_rule_def primaryViolation_def ex_verdict_def
        spam_rule_def)
  have nw: "resolved_action [spam_rule] ex_verdict \<noteq> JStr ''warn''"
    using act by simp
  have dur: "resolved_duration [spam_rule] ex_verdict = JNum (Finite 300)"
    by (simp add: resolved_duration_def find_rule_def primaryViolation_def ex_verdict_def
        spam_rule_def)
  have w0: "int (getWarningCount ex_bot (author_id ex_msg)) < maxWarnings ex_settings"
    by (simp add: getWarningCount_def ex_bot_def maxWarnings_def ex_settings_def)
  have w2: "\<not> int (getWarningCount ?two (author_id ex_msg)) < maxWarnings ex_settings"
    by (simp add: getWarningCount_def ex_msg_def maxWarnings_def ex_settings_def)
  have m: "member_of ?env ex_msg = Inr ex_member"
    by (simp add: member_of_def ex_msg_def)
  have ok: "timeout_args_error ex_engine (JNum (Finite 300)) (reasoning ex_verdict) = None"
    by (simp add: timeout_args_error_def ex_verdict_def)
  note t0 = warn_keeps_message_others_delete_first [of "[spam_rule]" ex_verdict ex_bot ex_msg
      ex_settings ex_engine ex_env ex_guild]
  note t2 = warn_keeps_message_others_delete_first [of "[spam_rule]" ex_verdict ?two ex_msg
      ex_settings ex_engine ?env ex_guild]
  have c0: "calls (takeAction ex_engine ex_env ex_settings [spam_rule] ex_msg ex_guild
              ex_verdict ex_bot) = calls ex_bot @ reply_calls ex_engine ex_verdict"
    using t0 act w0 by blast
  have c0': "calls (takeAction ex_engine ex_env ex_settings [spam_rule] ex_msg ex_guild
              ex_verdict ex_bot) = []"
    unfolding c0 by (simp add: reply_calls_def ex_verdict_def ex_bot_def)
  have c2: "calls (takeAction ex_engine ?env ex_settings [spam_rule] ex_msg ex_guild
              ex_verdict ?two) =
            calls ?two @ DeleteMessage
              # action_calls ex_engine ?env ex_settings ex_msg ex_guild ex_verdict
                  (resolved_action [spam_rule] ex_verdict)
                  (resolved_duration [spam_rule] ex_verdict)
              @ notice_calls ?env ex_settings (resolved_action [spam_rule] ex_verdict)"
    using t2 nw w2 by blast
  have tc: "timeout_calls ex_engine ?env ex_msg ex_verdict (JNum (Finite 300))
              = [MemberTimeout (DurationTimes1000 (JNum (Finite 300)))]"
    using m ok by (simp add: timeout_calls_def ex_msg_def ex_verdict_def ex_env_def)
  have c2': "calls (takeAction ex_engine ?env ex_settings [spam_rule] ex_msg ex_guild
              ex_verdict ?two)
           = [DeleteMessage, MemberTimeout (DurationTimes1000 (JNum (Finite 300)))]"
    unfolding c2 act dur
    by (simp add: action_calls_def tc notice_calls_def ex_settings_def ex_bot_def
        del: timeout_calls_delete_result action_calls_delete_result)
  have "\<forall>e. delete_result ?env = Some e \<longrightarrow>
            (\<exists>es. logs (takeAction ex_engine ?env ex_settings [spam_rule] ex_msg ex_guild
                          ex_verdict ?two)
                    = logs ?two @ ErrorLog e ''Failed to delete message'' # es)"
    using t2 nw w2 by blast
  then obtain es where
    l: "logs (takeAction ex_engine ?env ex_settings [spam_rule] ex_msg ex_guild ex_verdict ?two)
          = logs ?two @ ErrorLog ''Unknown Message'' ''Failed to delete message'' # es"
    by auto
  show ?thesis
    using act nw w0 w2 m ok c0' c2' l
    by (simp add: ex_bot_def)
qed

section \<open>Ban request: restraint and delivery\<close>

text \<open>
  C4, as amended. Step 4 attempts, in this order and stopping at the first send that
  succeeds, those of the four stages that exist for the request: the direct message only
  when a reviewer was located, the moderation channel only when a text channel bears one of
  the listed names, the channel of the violation always, and the first text channel the bot
  may send in only when there is one. The calls it makes are exactly \<open>until_success\<close>
  of these stages, so their number is the number of leading failures, plus one when a send
  succeeds; no stage is attempted twice. Once the request has been built, these calls
  follow the restraint, the pending entry is recorded with \<open>delivered\<close> telling whether a
  send succeeded, and when every attempt made has failed the exhaustion is logged as an
  error. When building the request throws, nothing is delivered, no entry is recorded
  and the failure is logged.
\<close>

theorem delivery_chain:
  "calls (snd (deliver eng env g admin s)) = calls s @ until_success (stages eng env g admin)
   \<and> fst (deliver eng env g admin s) = list_ex snd (stages eng env g admin)
   \<and> length (until_success (stages eng env g admin)) =
       length (takeWhile (\<lambda>x. \<not> snd x) (stages eng env g admin))
       + (if list_ex snd (stages eng env g admin) then 1 else 0)
   \<and> distinct (until_success (stages eng env g admin))
   \<and> (embed_result env = None \<longrightarrow>
        calls (requestBan eng env st msg g a s) =
          calls s @ restraint_calls eng env msg a
            @ until_success (stages eng env g (located eng env st))
        \<and> pendingBans (requestBan eng env st msg g a s)
            (pending_key (author_id msg) (guild_id g)) =
            Some \<lparr> pb_userId = author_id msg, pb_username = author_tag msg,
                   pb_guildId = guild_id g, pb_guildName = guild_name g,
                   pb_reason = reasoning a, pb_violations = violations a,
                   pb_confidence = confidence a, kicked = kick_succeeded eng env msg a,
                   delivered = list_ex snd (stages eng env g (located eng env st)) \<rparr>
        \<and> (\<not> list_ex snd (stages eng env g (located eng env st)) \<longrightarrow>
             ErrorLog (''All delivery methods failed for ban request (user: ''
                       @ author_tag msg @ '')'') ''Ban request delivery exhausted''
               \<in> set (logs (requestBan eng env st msg g a s))))
   \<and> (\<forall>e. embed_result env = Some e \<longrightarrow>
         calls (requestBan eng env st msg g a s) = calls s @ restraint_calls eng env msg a
         \<and> pendingBans (requestBan eng env st msg g a s) = pendingBans s
         \<and> ErrorLog e ''Ban request failed'' \<in> set (logs (requestBan eng env st msg g a s)))"
  using requestBan_exhausted_logged [of env eng g st msg a s]
    requestBan_failed_logged [of env _ eng st msg g a s]
  by (simp add: deliver_calls deliver_delivered until_success_length until_success_distinct
      stages_distinct requestBan_calls requestBan_pending request_calls_def)

lemma located_reviewer:
  "guild_members env = Inr [ex_reviewer] \<Longrightarrow> located ex_engine env ex_settings = Some ex_reviewer"
  by (simp add: located_def reviewer_name_def ex_settings_def matchesName_def ex_reviewer_def
      ex_engine_def ascii_lower_def lower_char_def Let_def)

lemma stages_deaf:
  "stages ex_engine deaf_env bare_guild (Some ex_reviewer) =
     [(ReviewerDM ''1'', False), (ViolationChannelSend, False)]"
  by (simp add: stages_def deaf_env_def bare_guild_def textChannels_def modChannelNames_def
      anyChannel_def ex_reviewer_def ex_engine_def ascii_lower_def lower_char_def)

text \<open>
  C4 as stated fails in a guild with no moderation channel and no channel the bot may send
  in: with the reviewer located and every send rejected, the restraint (the kick and its
  announcement) is followed by two attempts, the direct message and the channel of the
  violation, not by four; the entry is recorded with \<open>delivered = false\<close>.
\<close>

theorem delivery_chain_counterexample:
  "located ex_engine deaf_env ex_settings = Some ex_reviewer
   \<and> calls (requestBan ex_engine deaf_env ex_settings ex_msg bare_guild ex_verdict ex_bot) =
       [MemberKick, ChannelSend, ReviewerDM ''1'', ViolationChannelSend]
   \<and> pendingBans (requestBan ex_engine deaf_env ex_settings ex_msg bare_guild ex_verdict ex_bot)
        ''42_7'' =
       Some \<lparr> pb_userId = ''42'', pb_username = ''mallory'', pb_guildId = ''7'',
              pb_guildName = ''lounge'', pb_reason = JStr ''advertising'',
              pb_violations = [JStr ''spam''], pb_confidence = Finite (9 / 10),
              kicked = True, delivered = False \<rparr>"
proof -
  have l: "located ex_engine deaf_env ex_settings = Some ex_reviewer"
    by (rule located_reviewer) (simp add: deaf_env_def)
  have e: "embed_result deaf_env = None"
    by (simp add: deaf_env_def)
  have r: "restraint_calls ex_engine deaf_env ex_msg ex_verdict = [MemberKick, ChannelSend]"
    by (simp add: restraint_calls_def member_of_def ex_msg_def ex_member_def ex_verdict_def
        deaf_env_def)
  have k: "kick_succeeded ex_engine deaf_env ex_msg ex_verdict"
    by (simp add: kick_succeeded_def member_of_def ex_msg_def ex_member_def ex_verdict_def
        deaf_env_def)
  have c: "calls (requestBan ex_engine deaf_env ex_settings ex_msg bare_guild ex_verdict ex_bot)
             = [MemberKick, ChannelSend, ReviewerDM ''1'', ViolationChannelSend]"
    by (simp add: requestBan_calls request_calls_def e r l stages_deaf) (simp add: ex_bot_def)
  have key: "pending_key (author_id ex_msg) (guild_id bare_guild) = ''42_7''"
    by (simp add: pending_key_def ex_msg_def bare_guild_def)
  have p: "pendingBans (requestBan ex_engine deaf_env ex_settings ex_msg bare_guild ex_verdict
                          ex_bot) ''42_7'' =
       Some \<lparr> pb_userId = ''42'', pb_username = ''mallory'', pb_guildId = ''7'',
              pb_guildName = ''lounge'', pb_reason = JStr ''advertising'',
              pb_violations = [JStr ''spam''], pb_confidence = Finite (9 / 10),
              kicked = True, delivered = False \<rparr>"
    unfolding key [symmetric]
    by (simp add: requestBan_pending e k l stages_deaf)
       (simp add: ex_msg_def bare_guild_def ex_verdict_def)
  show ?thesis
    using c p l by simp
qed

text \<open>
  C4 at that input: no stage succeeds, the request is not delivered and the exhaustion is
  logged; and when the library rejects the embed, the map of pending requests stays empty.
\<close>

theorem delivery_chain_witness:
  "embed_result deaf_env = None
   \<and> \<not> list_ex snd (stages ex_engine deaf_env bare_guild (located ex_engine deaf_env ex_settings))
   \<and> until_success (stages ex_engine deaf_env bare_guild (located ex_engine deaf_env ex_settings))
       = [ReviewerDM ''1'', ViolationChannelSend]
   \<and> \<not> fst (deliver ex_engine deaf_env bare_guild (located ex_engine deaf_env ex_settings)
              ex_bot)
   \<and> ErrorLog ''All delivery methods failed for ban request (user: mallory)''
        ''Ban request delivery exhausted''
        \<in> set (logs (requestBan ex_engine deaf_env ex_settings ex_msg bare_guild ex_verdict
                       ex_bot))
   \<and> embed_result (deaf_env\<lparr>embed_result := Some ''Invalid string length''\<rparr>)
       = Some ''Invalid string length''
   \<and> pendingBans (requestBan ex_engine (deaf_env\<lparr>embed_result := Some ''Invalid string length''\<rparr>)
                    ex_settings ex_msg bare_guild ex_verdict ex_bot) = pendingBans ex_bot"
proof -
  let ?bad = "deaf_env\<lparr>embed_result := Some ''Invalid string length''\<rparr>"
  have l: "located ex_engine deaf_env ex_settings = Some ex_reviewer"
    by (rule located_reviewer) (simp add: deaf_env_def)
  have e: "embed_result deaf_env = None"
    by (simp add: deaf_env_def)
  have b: "embed_result ?bad = Some ''Invalid string length''"
    by simp
  have n: "\<not> list_ex snd (stages ex_engine deaf_env bare_guild
                             (located ex_engine deaf_env ex_settings))"
    by (simp add: l stages_deaf)
  note t = delivery_chain [of ex_engine deaf_env bare_guild
      "located ex_engine deaf_env ex_settings" ex_bot ex_settings ex_msg ex_verdict]
  note t' = delivery_chain [of ex_engine ?bad bare_guild
      "located ex_engine deaf_env ex_settings" ex_bot ex_settings ex_msg ex_verdict]
  have d: "\<not> fst (deliver ex_engine deaf_env bare_guild (located ex_engine deaf_env ex_settings)
                   ex_bot)"
    using t n by simp
  have x: "ErrorLog (''All delivery methods failed for ban request (user: ''
                  @ author_tag ex_msg @ '')'') ''Ban request delivery exhausted''
          \<in> set (logs (requestBan ex_engine deaf_env ex_settings ex_msg bare_guild ex_verdict
                         ex_bot))"
    using t e n by blast
  have p: "pendingBans (requestBan ex_engine ?bad ex_settings ex_msg bare_guild ex_verdict
                          ex_bot) = pendingBans ex_bot"
    using t' b by blast
  have u: "until_success (stages ex_engine deaf_env bare_guild
                            (located ex_engine deaf_env ex_settings)) =
       [ReviewerDM ''1'', ViolationChannelSend]"
    by (simp add: l stages_deaf)
  have tag: "author_tag ex_msg = ''mallory''"
    by (simp add: ex_msg_def)
  show ?thesis
    using e n d x u b p unfolding tag by simp
qed




section \<open>Resolution of a ban request\<close>

lemma delete_pending_fields [simp]:
  "pendingBans (delete_pending key s) = (pendingBans s)(key := None)"
  "calls (delete_pending key s) = calls s"
  "logs (delete_pending key s) = logs s"
  "userWarnings (delete_pending key s) = userWarnings s"
  by (simp_all add: delete_pending_def)

text \<open>Approval: the ban goes through the member when it is found and bannable.\<close>

lemma approve_by_member:
  assumes "fetch_guild renv = Inr gname" and "member_by_id renv = Some m" and "bannable m"
    and "ban_result renv = None" and "update_result renv 0 = None"
  shows "calls (fst (approve renv userId guildId s)) =
           calls s @ [FetchGuild, FetchMemberById, MemberBan, InteractionUpdate BanApproved]"
    and "pendingBans (fst (approve renv userId guildId s)) =
           (pendingBans s)(tmpl userId @ ''_'' @ tmpl guildId := None)"
    and "snd (approve renv userId guildId s) = None"
  using assms by (simp_all add: approve_def Let_def)

lemma approve_by_id:
  assumes "fetch_guild renv = Inr gname" and "member_by_id renv = None"
    and "bans_create_result renv = None" and "update_result renv 0 = None"
  shows "calls (fst (approve renv userId guildId s)) =
           calls s @ [FetchGuild, FetchMemberById, BansCreate, InteractionUpdate BanApprovedById]"
    and "pendingBans (fst (approve renv userId guildId s)) =
           (pendingBans s)(tmpl userId @ ''_'' @ tmpl guildId := None)"
    and "snd (approve renv userId guildId s) = None"
  using assms by (simp_all add: approve_def Let_def)

text \<open>A ban through the member that the platform rejects leaves the entry in the map.\<close>

lemma approve_member_ban_rejected:
  assumes "fetch_guild renv = Inr gname" and "member_by_id renv = Some m" and "bannable m"
    and "ban_result renv = Some e"
  shows "calls (fst (approve renv userId guildId s)) =
           calls s @ [FetchGuild, FetchMemberById, MemberBan, InteractionUpdate BanFailed]"
    and "pendingBans (fst (approve renv userId guildId s)) = pendingBans s"
  using assms by (simp_all add: approve_def approve_outer_catch_def Let_def)

text \<open>A ban by id that the platform rejects is reported, and the entry is removed all the same.\<close>

lemma approve_by_id_rejected:
  assumes "fetch_guild renv = Inr gname" and "member_by_id renv = None"
    and "bans_create_result renv = Some e" and "update_result renv 0 = None"
  shows "calls (fst (approve renv userId guildId s)) =
           calls s @ [FetchGuild, FetchMemberById, BansCreate, InteractionUpdate CouldNotBan]"
    and "pendingBans (fst (approve renv userId guildId s)) =
           (pendingBans s)(tmpl userId @ ''_'' @ tmpl guildId := None)"
    and "snd (approve renv userId guildId s) = None"
  using assms by (simp_all add: approve_def approve_inner_catch_def Let_def)

text \<open>
  C3. The claim is that a failed ban is reported to the reviewer and leaves the pending
  entry in the map. That holds when the ban through the member is rejected
  (\<open>approve_member_ban_rejected\<close>), but not when the offender has left and the ban by id
  is rejected: the inner \<^verbatim>\<open>catch\<close> reports the failure and control then reaches
  \<^verbatim>\<open>pendingBans.delete\<close>. For the request of user 42 in guild 7, approved while the
  platform answers "Missing Permissions" to \<^verbatim>\<open>guild.bans.create\<close>, the entry is gone
  afterwards.
\<close>

theorem approve_rejected_ban_by_id_drops_entry:
  "pendingBans (ex_bot\<lparr>pendingBans := [''42_7'' \<mapsto> ex_pending]\<rparr>) ''42_7'' = Some ex_pending
   \<and> bans_create_result noperm_renv = Some ''Missing Permissions''
   \<and> calls (fst (handleInteraction noperm_renv
                    \<lparr> isButton = True, customId = ''ban_approve_42_7'' \<rparr>
                    (ex_bot\<lparr>pendingBans := [''42_7'' \<mapsto> ex_pending]\<rparr>))) =
       [FetchGuild, FetchMemberById, BansCreate, InteractionUpdate CouldNotBan]
   \<and> pendingBans (fst (handleInteraction noperm_renv
                          \<lparr> isButton = True, customId = ''ban_approve_42_7'' \<rparr>
                          (ex_bot\<lparr>pendingBans := [''42_7'' \<mapsto> ex_pending]\<rparr>))) ''42_7'' = None
   \<and> snd (handleInteraction noperm_renv
             \<lparr> isButton = True, customId = ''ban_approve_42_7'' \<rparr>
             (ex_bot\<lparr>pendingBans := [''42_7'' \<mapsto> ex_pending]\<rparr>)) = None"
proof -
  have h: "handleInteraction noperm_renv \<lparr> isButton = True, customId = ''ban_approve_42_7'' \<rparr>
             (ex_bot\<lparr>pendingBans := [''42_7'' \<mapsto> ex_pending]\<rparr>) =
           approve noperm_renv (Some ''42'') (Some ''7'')
             (ex_bot\<lparr>pendingBans := [''42_7'' \<mapsto> ex_pending]\<rparr>)"
    by (simp add: handleInteraction_def part_def Let_def)
  have e: "fetch_guild noperm_renv = Inr ''lounge''" "member_by_id noperm_renv = None"
    "bans_create_result noperm_renv = Some ''Missing Permissions''"
    "update_result noperm_renv 0 = None"
    by (simp_all add: noperm_renv_def)
  show ?thesis
    unfolding h
    using approve_by_id_rejected [OF e, of "Some ''42''" "Some ''7''"
        "ex_bot\<lparr>pendingBans := [''42_7'' \<mapsto> ex_pending]\<rparr>"] e(3)
    by (simp add: tmpl_def ex_bot_def)
qed

text \<open>
  C9, as amended. A deny interaction whose composite key has no entry in the pending-ban
  map (as after a first deny that removed it) leaves the map as it was, and the audit log
  and the warning ledger too: removing the absent key changes nothing. It raises no
  exception when the platform accepts the answer to the reviewer, the first
  \<^verbatim>\<open>interaction.update\<close>; and whether an exception leaves the handler is the same from
  every state \<open>s0\<close> of the bot, so the absence of the entry never causes one.
\<close>

theorem deny_of_resolved_request:
  assumes "isButton ia"
    and "part (split_on CHR ''_'' (customId ia)) 0 = Some ''ban''"
    and "part (split_on CHR ''_'' (customId ia)) 1 = Some ''deny''"
    and "pendingBans s (tmpl (part (split_on CHR ''_'' (customId ia)) 2) @ ''_''
                         @ tmpl (part (split_on CHR ''_'' (customId ia)) 3)) = None"
  shows "pendingBans (fst (handleInteraction renv ia s)) = pendingBans s
         \<and> (update_result renv 0 = None \<longrightarrow> snd (handleInteraction renv ia s) = None)
         \<and> snd (handleInteraction renv ia s) = snd (handleInteraction renv ia s0)
         \<and> logs (fst (handleInteraction renv ia s)) = logs s
         \<and> userWarnings (fst (handleInteraction renv ia s)) = userWarnings s"
proof -
  let ?u = "part (split_on CHR ''_'' (customId ia)) 2"
  let ?g = "part (split_on CHR ''_'' (customId ia)) 3"
  have h: "handleInteraction renv ia s = deny renv ?u ?g s"
    "handleInteraction renv ia s0 = deny renv ?u ?g s0"
    using assms(1-3) by (simp_all add: handleInteraction_def Let_def)
  have k: "(pendingBans s)(tmpl ?u @ ''_'' @ tmpl ?g := None) = pendingBans s"
    using assms(4) by (simp add: fun_upd_idem)
  show ?thesis
    unfolding h using k
    by (auto simp: deny_def deny_catch_def Let_def split: sum.splits option.splits)
qed

text \<open>
  C9 as stated fails when the platform rejects the answers to the reviewer: the guild
  cannot be fetched, the \<^verbatim>\<open>catch\<close> block answers with \<^verbatim>\<open>interaction.update\<close>, that call is
  rejected and its error leaves the handler; the map is unchanged all the same.
\<close>

theorem deny_of_resolved_request_counterexample:
  "pendingBans ex_bot ''42_7'' = None
   \<and> snd (handleInteraction gone_renv \<lparr> isButton = True, customId = ''ban_deny_42_7'' \<rparr> ex_bot)
       = Some ''Unknown interaction''
   \<and> calls (fst (handleInteraction gone_renv
                    \<lparr> isButton = True, customId = ''ban_deny_42_7'' \<rparr> ex_bot))
       = [FetchGuild, InteractionUpdate DenyFailed]"
  by (simp add: handleInteraction_def part_def deny_def deny_catch_def gone_renv_def ex_bot_def
      Let_def docall_def)

text \<open>C9 at a concrete input: a deny for user 42 in guild 7 with an empty map.\<close>

theorem deny_of_resolved_request_witness:
  "isButton \<lparr> isButton = True, customId = ''ban_deny_42_7'' \<rparr>
   \<and> split_on CHR ''_'' (customId \<lparr> isButton = True, customId = ''ban_deny_42_7'' \<rparr>)
       = [''ban'', ''deny'', ''42'', ''7'']
   \<and> pendingBans ex_bot ''42_7'' = None
   \<and> update_result left_renv 0 = None
   \<and> pendingBans (fst (handleInteraction left_renv
                          \<lparr> isButton = True, customId = ''ban_deny_42_7'' \<rparr> ex_bot))
       = pendingBans ex_bot
   \<and> snd (handleInteraction left_renv
             \<lparr> isButton = True, customId = ''ban_deny_42_7'' \<rparr> ex_bot) = None"
proof -
  let ?ia = "\<lparr> isButton = True, customId = ''ban_deny_42_7'' \<rparr>"
  have sp: "split_on CHR ''_'' (customId ?ia) = [''ban'', ''deny'', ''42'', ''7'']"
    by simp
  have 1: "isButton ?ia" by simp
  have 2: "part (split_on CHR ''_'' (customId ?ia)) 0 = Some ''ban''"
    unfolding sp by (simp add: part_def)
  have 3: "part (split_on CHR ''_'' (customId ?ia)) 1 = Some ''deny''"
    unfolding sp by (simp add: part_def)
  have 4: "pendingBans ex_bot (tmpl (part (split_on CHR ''_'' (customId ?ia)) 2) @ ''_''
                         @ tmpl (part (split_on CHR ''_'' (customId ?ia)) 3)) = None"
    by (simp add: ex_bot_def)
  have u: "update_result left_renv 0 = None"
    by (simp add: left_renv_def)
  have p: "pendingBans ex_bot ''42_7'' = None"
    by (simp add: ex_bot_def)
  show ?thesis
    using deny_of_resolved_request [OF 1 2 3 4, of left_renv] sp u p by simp
qed

end
